theory Spec2Isabelle
  imports Complex_Main
begin

section \<open>Python values, exceptions and results\<close>

text \<open>
  The grid search of \<^verbatim>\<open>tradeexecutor/backtest/grid_search.py\<close> takes candidate values of
  any Python type (\<^verbatim>\<open>Any\<close>). The model has the three types \<^verbatim>\<open>GridParameter.to_path\<close>
  accepts (\<^verbatim>\<open>int\<close>, \<^verbatim>\<open>float\<close>, \<^verbatim>\<open>str\<close>) and two it refuses (\<^verbatim>\<open>bool\<close>, \<^verbatim>\<open>None\<close>).
  A float carries its numeric value and the text \<^verbatim>\<open>str()\<close> gives for it: that text is
  computed by CPython's shortest round-trip formatting, which is no part of the repository, so
  the model stores it instead of recomputing it.
\<close>

datatype py_value =
    PyInt int
  | PyFloat rat string
  | PyStr string
  | PyBool bool
  | PyNone

text \<open>The exceptions the modelled code can raise; \<open>RuntimeError\<close> stands for whatever a
  caller-supplied callback raises, with its message. The last three belong to the indicator
  engine: a signature mismatch carries the names of the offending parameters, and
  \<open>ValueError\<close> is the rejection of a name that cannot stand in a path.\<close>

datatype exn =
    AssertionError
  | NotImplementedError
  | TypeError
  | KeyError
  | FileExistsError
  | FileNotFoundError
  | NotADirectoryError
  | IsADirectoryError
  | DirectoryNotEmpty
  | UnpicklingError
  | RuntimeError string
  | IndicatorFunctionSignatureMismatch "string list"
  | CacheCorruptError
  | ValueError

text \<open>A call either raises (\<open>Inl\<close>) or returns (\<open>Inr\<close>). \<open>map_err\<close> is a list comprehension
  or a \<^verbatim>\<open>for\<close> loop whose body can raise: the first exception ends it.\<close>

fun map_err :: "('a \<Rightarrow> exn + 'b) \<Rightarrow> 'a list \<Rightarrow> exn + 'b list" where
  "map_err f [] = Inr []"
| "map_err f (x # xs) =
     (case f x of
        Inl e \<Rightarrow> Inl e
      | Inr y \<Rightarrow> (case map_err f xs of Inl e \<Rightarrow> Inl e | Inr ys \<Rightarrow> Inr (y # ys)))"

subsection \<open>\<^verbatim>\<open>str(int)\<close>\<close>

function digits10 :: "nat \<Rightarrow> string" where
  "digits10 n =
     (if n < 10 then [''0123456789'' ! n]
      else digits10 (n div 10) @ [''0123456789'' ! (n mod 10)])"
  by pat_completeness auto
termination
  by (relation "measure (\<lambda>n. n)") auto

declare digits10.simps [simp del]

definition str_int :: "int \<Rightarrow> string" where
  "str_int i = (if i < 0 then ''-'' @ digits10 (nat (- i)) else digits10 (nat i))"

text \<open>\<^verbatim>\<open>f"{value}"\<close> for a value of a type \<open>to_path\<close> accepts.\<close>

fun format_value :: "py_value \<Rightarrow> string" where
  "format_value (PyInt i) = str_int i"
| "format_value (PyFloat r s) = s"
| "format_value (PyStr s) = s"
| "format_value (PyBool b) = (if b then ''True'' else ''False'')"
| "format_value PyNone = ''None''"

subsection \<open>Python's \<^verbatim>\<open>==\<close> and \<^verbatim>\<open>hash\<close> on values\<close>

text \<open>Numbers compare by numeric value across \<^verbatim>\<open>bool\<close>, \<^verbatim>\<open>int\<close> and \<^verbatim>\<open>float\<close>
  (\<^verbatim>\<open>True == 1 == 1.0\<close>); a string equals only the same string; \<^verbatim>\<open>None\<close> only itself.\<close>

datatype eq_key = KNum rat | KStr string | KNone

fun eq_key_of :: "py_value \<Rightarrow> eq_key" where
  "eq_key_of (PyInt i) = KNum (of_int i)"
| "eq_key_of (PyFloat r s) = KNum r"
| "eq_key_of (PyStr s) = KStr s"
| "eq_key_of (PyBool b) = KNum (if b then 1 else 0)"
| "eq_key_of PyNone = KNone"

definition py_eq :: "py_value \<Rightarrow> py_value \<Rightarrow> bool" where
  "py_eq v w = (eq_key_of v = eq_key_of w)"

text \<open>The interpreter's hash functions are parameters: the hash of a string depends on the
  process's hash seed. Numbers hash by numeric value (\<^verbatim>\<open>hash(1) == hash(1.0) == hash(True)\<close>),
  and the hash of a tuple is a function of its elements' hashes.\<close>

record py_hashing =
  hash_num :: "rat \<Rightarrow> int"
  hash_str :: "string \<Rightarrow> int"
  hash_none :: int
  hash_tuple :: "int list \<Rightarrow> int"

definition py_hash :: "py_hashing \<Rightarrow> py_value \<Rightarrow> int" where
  "py_hash H v =
     (case eq_key_of v of
        KNum r \<Rightarrow> hash_num H r
      | KStr s \<Rightarrow> hash_str H s
      | KNone \<Rightarrow> hash_none H)"

section \<open>Paths and the file system\<close>

text \<open>
  A \<^verbatim>\<open>pathlib.Path\<close> on POSIX: whether it is absolute, and its components. Parsing a string
  drops empty and \<^verbatim>\<open>.\<close> components. A file system is an association list from paths to
  nodes (the first entry of a path is the live one); the root and the working directory
  (the paths with no component) are always directories. Paths are compared as
  \<^verbatim>\<open>pathlib\<close> compares them: symbolic links, \<^verbatim>\<open>..\<close> and the working directory's own
  absolute name are not resolved.
\<close>

datatype Path = Path (is_absolute: bool) (components: "string list")

fun split_sep :: "string \<Rightarrow> string list" where
  "split_sep [] = [[]]"
| "split_sep (c # cs) =
     (if c = CHR ''/'' then [] # split_sep cs
      else (case split_sep cs of [] \<Rightarrow> [[c]] | w # ws \<Rightarrow> (c # w) # ws))"

definition Path_of :: "string \<Rightarrow> Path" where
  "Path_of s = Path (take 1 s = ''/'') (filter (\<lambda>w. w \<noteq> [] \<and> w \<noteq> ''.'') (split_sep s))"

definition joinpath :: "Path \<Rightarrow> Path \<Rightarrow> Path" where
  "joinpath p q =
     (if is_absolute q then q else Path (is_absolute p) (components p @ components q))"

definition parent :: "Path \<Rightarrow> Path" where
  "parent p = Path (is_absolute p) (butlast (components p))"

text \<open>\<^verbatim>\<open>os.path.join(a, *p)\<close> of \<^verbatim>\<open>posixpath\<close>.\<close>

fun os_path_join :: "string \<Rightarrow> string list \<Rightarrow> string" where
  "os_path_join a [] = a"
| "os_path_join a (b # bs) =
     os_path_join
       (if take 1 b = ''/'' then b
        else if a = [] \<or> last a = CHR ''/'' then a @ b
        else a @ ''/'' @ b) bs"

datatype 'a node = Dir | File 'a

type_synonym 'a filesystem = "(Path \<times> 'a node) list"

definition node_at :: "'a filesystem \<Rightarrow> Path \<Rightarrow> 'a node option" where
  "node_at fs p = (if components p = [] then Some Dir else map_of fs p)"

definition path_exists :: "'a filesystem \<Rightarrow> Path \<Rightarrow> bool" where
  "path_exists fs p = (node_at fs p \<noteq> None)"

definition is_dir :: "'a filesystem \<Rightarrow> Path \<Rightarrow> bool" where
  "is_dir fs p = (node_at fs p = Some Dir)"

definition has_entries :: "'a filesystem \<Rightarrow> Path \<Rightarrow> bool" where
  "has_entries fs p = list_ex (\<lambda>(q, n). components q \<noteq> [] \<and> parent q = p) fs"

text \<open>\<^verbatim>\<open>os.mkdir\<close>: the path must be new and its parent a directory.\<close>

definition os_mkdir :: "'a filesystem \<Rightarrow> Path \<Rightarrow> exn + 'a filesystem" where
  "os_mkdir fs p =
     (if node_at fs p \<noteq> None then Inl FileExistsError
      else (case node_at fs (parent p) of
              None \<Rightarrow> Inl FileNotFoundError
            | Some (File c) \<Rightarrow> Inl NotADirectoryError
            | Some Dir \<Rightarrow> Inr ((p, Dir) # fs)))"

text \<open>\<^verbatim>\<open>Path.mkdir(parents=True, exist_ok=True)\<close>, as \<^verbatim>\<open>pathlib\<close> writes it: try
  \<^verbatim>\<open>os.mkdir\<close>; on \<^verbatim>\<open>FileNotFoundError\<close> make the parent first and try again; any other
  \<^verbatim>\<open>OSError\<close> is swallowed when the path is a directory.\<close>

function mkdir_parents :: "'a filesystem \<Rightarrow> Path \<Rightarrow> exn + 'a filesystem" where
  "mkdir_parents fs p =
     (case os_mkdir fs p of
        Inr fs' \<Rightarrow> Inr fs'
      | Inl e \<Rightarrow>
          (if e = FileNotFoundError then
             (if components p = [] then Inl e
              else (case mkdir_parents fs (parent p) of
                      Inl e' \<Rightarrow> Inl e'
                    | Inr fs1 \<Rightarrow>
                        (case os_mkdir fs1 p of
                           Inr fs2 \<Rightarrow> Inr fs2
                         | Inl e2 \<Rightarrow>
                             if e2 \<noteq> FileNotFoundError \<and> is_dir fs1 p then Inr fs1
                             else Inl e2)))
           else if is_dir fs p then Inr fs else Inl e))"
  by pat_completeness auto
termination
  by (relation "measure (\<lambda>(fs, p). length (components p))") (auto simp: parent_def)

declare mkdir_parents.simps [simp del]

text \<open>\<^verbatim>\<open>Path.rmdir\<close>: removes an empty directory only. The root and the working directory
  cannot be removed; the operating system's error for them is not told apart from that of a
  directory with entries.\<close>

definition rmdir :: "'a filesystem \<Rightarrow> Path \<Rightarrow> exn + 'a filesystem" where
  "rmdir fs p =
     (case node_at fs p of
        None \<Rightarrow> Inl FileNotFoundError
      | Some (File c) \<Rightarrow> Inl NotADirectoryError
      | Some Dir \<Rightarrow>
          (if components p = [] \<or> has_entries fs p then Inl DirectoryNotEmpty
           else Inr (filter (\<lambda>(q, n). q \<noteq> p) fs)))"

text \<open>\<^verbatim>\<open>open(path, "wb")\<close> followed by writing the whole content, and
  \<^verbatim>\<open>open(path, "rb")\<close> followed by reading it.\<close>

definition write_file :: "'a filesystem \<Rightarrow> Path \<Rightarrow> 'a \<Rightarrow> exn + 'a filesystem" where
  "write_file fs p c =
     (case node_at fs p of
        Some Dir \<Rightarrow> Inl IsADirectoryError
      | _ \<Rightarrow>
          (case node_at fs (parent p) of
             None \<Rightarrow> Inl FileNotFoundError
           | Some (File c') \<Rightarrow> Inl NotADirectoryError
           | Some Dir \<Rightarrow> Inr ((p, File c) # fs)))"

definition read_file :: "'a filesystem \<Rightarrow> Path \<Rightarrow> exn + 'a" where
  "read_file fs p =
     (case node_at fs p of
        None \<Rightarrow> Inl FileNotFoundError
      | Some Dir \<Rightarrow> Inl IsADirectoryError
      | Some (File c) \<Rightarrow> Inr c)"

section \<open>Grid parameters and combinations\<close>

record GridParameter =
  param_name :: string
  param_value :: py_value

definition GridParameter_eq :: "GridParameter \<Rightarrow> GridParameter \<Rightarrow> bool" where
  "GridParameter_eq p q = (param_name p = param_name q \<and> py_eq (param_value p) (param_value q))"

definition GridParameter_hash :: "py_hashing \<Rightarrow> GridParameter \<Rightarrow> int" where
  "GridParameter_hash H p =
     hash_tuple H [hash_str H (param_name p), py_hash H (param_value p)]"

text \<open>\<^verbatim>\<open>type(value) in (float, int, str)\<close>: a \<^verbatim>\<open>bool\<close> is not an \<^verbatim>\<open>int\<close> here.\<close>

fun path_supported :: "py_value \<Rightarrow> bool" where
  "path_supported (PyInt i) = True"
| "path_supported (PyFloat r s) = True"
| "path_supported (PyStr s) = True"
| "path_supported v = False"

definition to_path :: "GridParameter \<Rightarrow> exn + string" where
  "to_path p =
     (if path_supported (param_value p)
      then Inr (param_name p @ ''='' @ format_value (param_value p))
      else Inl NotImplementedError)"

record GridCombination =
  result_path :: Path
  parameters :: "GridParameter list"

text \<open>\<^verbatim>\<open>GridCombination.__post_init__\<close>: the dataclass constructor with its assertions.\<close>

definition GridCombination_init ::
  "'a filesystem \<Rightarrow> Path \<Rightarrow> GridParameter list \<Rightarrow> exn + GridCombination" where
  "GridCombination_init fs rp ps =
     (if \<not> length ps > 0 then Inl AssertionError
      else if \<not> (path_exists fs rp \<and> is_dir fs rp) then Inl AssertionError
      else Inr \<lparr>result_path = rp, parameters = ps\<rparr>)"

text \<open>Equality and hash of a combination: of its tuple of parameters, element by element.\<close>

definition GridCombination_eq :: "GridCombination \<Rightarrow> GridCombination \<Rightarrow> bool" where
  "GridCombination_eq c d = list_all2 GridParameter_eq (parameters c) (parameters d)"

definition GridCombination_hash :: "py_hashing \<Rightarrow> GridCombination \<Rightarrow> int" where
  "GridCombination_hash H c = hash_tuple H (map (GridParameter_hash H) (parameters c))"

text \<open>\<^verbatim>\<open>os.path.join(*path_parts)\<close> with no part is a \<^verbatim>\<open>TypeError\<close>.\<close>

definition get_relative_result_path :: "GridCombination \<Rightarrow> exn + Path" where
  "get_relative_result_path c =
     (case map_err to_path (parameters c) of
        Inl e \<Rightarrow> Inl e
      | Inr [] \<Rightarrow> Inl TypeError
      | Inr (a # rest) \<Rightarrow> Inr (Path_of (os_path_join a rest)))"

definition get_full_result_path :: "GridCombination \<Rightarrow> exn + Path" where
  "get_full_result_path c =
     (case get_relative_result_path c of
        Inl e \<Rightarrow> Inl e
      | Inr rel \<Rightarrow> Inr (joinpath (result_path c) rel))"

definition validate :: "GridCombination \<Rightarrow> exn + unit" where
  "validate c = (case get_relative_result_path c of Inl e \<Rightarrow> Inl e | Inr rel \<Rightarrow> Inr ())"

section \<open>Preparing the combinations\<close>

text \<open>
  The parameter grid is a \<^verbatim>\<open>dict\<close>: an association list in declaration order, whose keys
  are distinct. \<open>product_lists\<close> enumerates as \<^verbatim>\<open>itertools.product\<close> does (the last list
  varies fastest).
\<close>

type_synonym grid = "(string \<times> py_value list) list"

text \<open>The directory set-up at the head of \<^verbatim>\<open>prepare_grid_combinations\<close>.\<close>

definition prepare_result_path :: "'a filesystem \<Rightarrow> Path \<Rightarrow> bool \<Rightarrow> exn + 'a filesystem" where
  "prepare_result_path fs rp clear_cached_results =
     (case (if clear_cached_results \<and> path_exists fs rp then rmdir fs rp else Inr fs) of
        Inl e \<Rightarrow> Inl e
      | Inr fs1 \<Rightarrow> mkdir_parents fs1 rp)"

text \<open>\<^verbatim>\<open>sort_by_order\<close>: a dictionary from the names of the combination's parameters (a later
  parameter of the same name replaces an earlier one), read in the order of the grid's keys.\<close>

fun dict_by_name ::
  "(string \<rightharpoonup> GridParameter) \<Rightarrow> GridParameter list \<Rightarrow> (string \<rightharpoonup> GridParameter)" where
  "dict_by_name m [] = m"
| "dict_by_name m (p # ps) = dict_by_name (m(param_name p \<mapsto> p)) ps"

definition sort_by_order :: "string list \<Rightarrow> GridParameter list \<Rightarrow> exn + GridParameter list" where
  "sort_by_order order c =
     (let temp = dict_by_name Map.empty c
      in map_err (\<lambda>ou. case temp ou of None \<Rightarrow> Inl KeyError | Some p \<Rightarrow> Inr p) order)"

definition args_lists :: "grid \<Rightarrow> GridParameter list list" where
  "args_lists g =
     map (\<lambda>(nm, vs). map (\<lambda>v. \<lparr>param_name = nm, param_value = v\<rparr>) vs) g"

definition prepare_grid_combinations ::
  "grid \<Rightarrow> Path \<Rightarrow> bool \<Rightarrow> 'a filesystem \<Rightarrow> exn + ('a filesystem \<times> GridCombination list)" where
  "prepare_grid_combinations g rp clear_cached_results fs =
     (case prepare_result_path fs rp clear_cached_results of
        Inl e \<Rightarrow> Inl e
      | Inr fs' \<Rightarrow>
          (case map_err
                  (\<lambda>c. case sort_by_order (map fst g) c of
                         Inl e \<Rightarrow> Inl e
                       | Inr ps \<Rightarrow> GridCombination_init fs' rp ps)
                  (product_lists (args_lists g)) of
             Inl e \<Rightarrow> Inl e
           | Inr combinations \<Rightarrow>
               (case map_err validate combinations of
                  Inl e \<Rightarrow> Inl e
                | Inr oks \<Rightarrow> Inr (fs', combinations))))"

section \<open>Running the grid search\<close>

text \<open>
  \<^verbatim>\<open>GridSearchResult\<close>: the combination, the outcome of the backtest (\<open>backtest\<close> stands
  for the fields \<^verbatim>\<open>state\<close>, \<^verbatim>\<open>summary\<close> and \<^verbatim>\<open>metrics\<close>, which the search only
  carries) and the \<open>cached\<close> flag. A file holds the pickle of a result or other bytes.
\<close>

record 'b GridSearchResult =
  combination :: GridCombination
  backtest :: 'b
  cached :: bool

datatype 'b stored = Pickled "'b GridSearchResult" | OtherBytes

definition has_result :: "'b stored filesystem \<Rightarrow> GridCombination \<Rightarrow> exn + bool" where
  "has_result fs c =
     (let base_path = result_path c in
      case get_full_result_path c of
        Inl e \<Rightarrow> Inl e
      | Inr full \<Rightarrow>
          Inr (path_exists fs (joinpath (joinpath base_path full) (Path_of ''result.pickle''))))"

definition load :: "'b stored filesystem \<Rightarrow> GridCombination \<Rightarrow> exn + 'b GridSearchResult" where
  "load fs c =
     (case get_full_result_path c of
        Inl e \<Rightarrow> Inl e
      | Inr base_path \<Rightarrow>
          (case read_file fs (joinpath base_path (Path_of ''result.pickle'')) of
             Inl e \<Rightarrow> Inl e
           | Inr OtherBytes \<Rightarrow> Inl UnpicklingError
           | Inr (Pickled r) \<Rightarrow> Inr (r\<lparr>cached := True\<rparr>)))"

definition save :: "'b stored filesystem \<Rightarrow> 'b GridSearchResult \<Rightarrow> exn + 'b stored filesystem" where
  "save fs r =
     (case get_full_result_path (combination r) of
        Inl e \<Rightarrow> Inl e
      | Inr base_path \<Rightarrow>
          (case mkdir_parents fs base_path of
             Inl e \<Rightarrow> Inl e
           | Inr fs1 \<Rightarrow> write_file fs1 (joinpath base_path (Path_of ''result.pickle'')) (Pickled r)))"

text \<open>A \<^verbatim>\<open>GridSearchWorker\<close> runs one backtest: it raises or returns a result.\<close>

type_synonym ('u, 'b) GridSearchWorker = "'u \<Rightarrow> GridCombination \<Rightarrow> exn + 'b GridSearchResult"

definition run_grid_combination ::
  "('u, 'b) GridSearchWorker \<Rightarrow> 'u \<Rightarrow> GridCombination \<Rightarrow> 'b stored filesystem
   \<Rightarrow> exn + ('b stored filesystem \<times> 'b GridSearchResult)" where
  "run_grid_combination grid_search_worker universe c fs =
     (case has_result fs c of
        Inl e \<Rightarrow> Inl e
      | Inr True \<Rightarrow> (case load fs c of Inl e \<Rightarrow> Inl e | Inr r \<Rightarrow> Inr (fs, r))
      | Inr False \<Rightarrow>
          (case grid_search_worker universe c of
             Inl e \<Rightarrow> Inl e
           | Inr r \<Rightarrow> (case save fs r of Inl e \<Rightarrow> Inl e | Inr fs' \<Rightarrow> Inr (fs', r))))"

text \<open>The tasks of a search, run one after the other; the first exception ends the run.\<close>

fun run_tasks ::
  "('u, 'b) GridSearchWorker \<Rightarrow> 'u \<Rightarrow> GridCombination list \<Rightarrow> 'b stored filesystem
   \<Rightarrow> exn + ('b stored filesystem \<times> 'b GridSearchResult list)" where
  "run_tasks w u [] fs = Inr (fs, [])"
| "run_tasks w u (c # cs) fs =
     (case run_grid_combination w u c fs of
        Inl e \<Rightarrow> Inl e
      | Inr (fs1, r) \<Rightarrow>
          (case run_tasks w u cs fs1 of
             Inl e \<Rightarrow> Inl e
           | Inr (fs2, rs) \<Rightarrow> Inr (fs2, r # rs)))"

text \<open>
  \<^verbatim>\<open>perform_grid_search\<close>. With one worker the tasks run in the order of the list. With more,
  a thread pool of the \<^verbatim>\<open>futureproof\<close> library runs them, with the error policy
  \<^verbatim>\<open>RAISE\<close>, and the results are read as the tasks complete: the model takes the order of
  completion as a parameter \<open>completion\<close> (any reordering of the tasks) and runs each task
  as one step. The parameters \<^verbatim>\<open>clear_cached_results\<close> and \<^verbatim>\<open>stats\<close> are not read by
  the source.
\<close>

definition perform_grid_search ::
  "(GridCombination list \<Rightarrow> GridCombination list) \<Rightarrow> ('u, 'b) GridSearchWorker \<Rightarrow> 'u
   \<Rightarrow> GridCombination list \<Rightarrow> int \<Rightarrow> 'b stored filesystem
   \<Rightarrow> exn + ('b stored filesystem \<times> 'b GridSearchResult list)" where
  "perform_grid_search completion grid_search_worker universe combinations max_workers fs =
     (if max_workers > 1
      then run_tasks grid_search_worker universe (completion combinations) fs
      else run_tasks grid_search_worker universe combinations fs)"

section \<open>The indicator engine\<close>

text \<open>
  Modelled from the spec: the module \<^verbatim>\<open>tradeexecutor/strategy/pandas_trader/indicator.py\<close>
  (\<^verbatim>\<open>IndicatorDefinition\<close>, \<^verbatim>\<open>IndicatorSet\<close>, \<^verbatim>\<open>IndicatorStorage\<close>,
  \<^verbatim>\<open>calculate_and_load_indicators\<close>) is not among the source files; only its tests are. The
  definitions of this section follow sections 3, 4.1, 4.2 and 4.3 of the specification, with
  the names and the file extension the tests use.
\<close>

text \<open>Modelled from the spec: an indicator function, as its accepted keyword arguments and the
  transform itself, from a pair's candle data and the parameters to a series or table.\<close>

record ('c, 'd) IndicatorFunction =
  accepted_arguments :: "string list"
  transform :: "'c \<Rightarrow> (string \<times> py_value) list \<Rightarrow> exn + 'd"

text \<open>Modelled from the spec: \<^verbatim>\<open>IndicatorDefinition\<close> of section 3; the parameters are a
  mapping in insertion order.\<close>

record ('c, 'd) IndicatorDefinition =
  ind_name :: string
  ind_func :: "('c, 'd) IndicatorFunction"
  ind_parameters :: "(string \<times> py_value) list"

text \<open>Modelled from the spec: \<^verbatim>\<open>define(name, function, parameters)\<close> of section 4.1, the
  constructor of \<^verbatim>\<open>IndicatorDefinition\<close>: the parameter names the function does not
  accept are the offending ones.\<close>

definition define_indicator ::
  "string \<Rightarrow> ('c, 'd) IndicatorFunction \<Rightarrow> (string \<times> py_value) list
   \<Rightarrow> exn + ('c, 'd) IndicatorDefinition" where
  "define_indicator nm func params =
     (let offending = filter (\<lambda>k. k \<notin> set (accepted_arguments func)) (map fst params)
      in if offending \<noteq> [] then Inl (IndicatorFunctionSignatureMismatch offending)
         else Inr \<lparr>ind_name = nm, ind_func = func, ind_parameters = params\<rparr>)"

text \<open>Modelled from the spec: \<^verbatim>\<open>IndicatorSet\<close> of section 4.3, a mapping from name to
  definition where the last registration of a name wins. \<open>IndicatorSet_add\<close> gives the
  outcome of the call and the set after it.\<close>

type_synonym ('c, 'd) IndicatorSet = "(string \<times> ('c, 'd) IndicatorDefinition) list"

fun registered ::
  "('c, 'd) IndicatorSet \<Rightarrow> string \<Rightarrow> ('c, 'd) IndicatorDefinition \<Rightarrow> ('c, 'd) IndicatorSet" where
  "registered [] nm d = [(nm, d)]"
| "registered ((k, d') # rest) nm d =
     (if k = nm then (k, d) # rest else (k, d') # registered rest nm d)"

definition IndicatorSet_add ::
  "('c, 'd) IndicatorSet \<Rightarrow> string \<Rightarrow> ('c, 'd) IndicatorFunction \<Rightarrow> (string \<times> py_value) list
   \<Rightarrow> (exn + unit) \<times> ('c, 'd) IndicatorSet" where
  "IndicatorSet_add indicators nm func params =
     (case define_indicator nm func params of
        Inl e \<Rightarrow> (Inl e, indicators)
      | Inr d \<Rightarrow> (Inr (), registered indicators nm d))"

text \<open>Modelled from the spec: the characters unsafe for a file system path, which section 4.1
  asks \<^verbatim>\<open>render_path_fragment\<close> to escape or reject: on POSIX a file name cannot hold the
  separator \<^verbatim>\<open>/\<close> or the NUL character.\<close>

definition path_safe :: "string \<Rightarrow> bool" where
  "path_safe s = list_all (\<lambda>c. c \<noteq> CHR ''/'' \<and> c \<noteq> CHR 0x00) s"

text \<open>Modelled from the spec: \<^verbatim>\<open>render_path_fragment\<close> of section 4.1, \<^verbatim>\<open>name(k=v,...)\<close>
  with the parameters in insertion order. The specification leaves open whether an unsafe
  character is escaped or rejected and gives no escaping; the model rejects the definition.
  On a text with no unsafe character the two agree.\<close>

fun join_with :: "string \<Rightarrow> string list \<Rightarrow> string" where
  "join_with sep [] = []"
| "join_with sep [x] = x"
| "join_with sep (x # y # ys) = x @ sep @ join_with sep (y # ys)"

definition render_path_fragment :: "('c, 'd) IndicatorDefinition \<Rightarrow> exn + string" where
  "render_path_fragment d =
     (let encoded = ind_name d @ ''('' @
            join_with '','' (map (\<lambda>(k, v). k @ ''='' @ format_value v) (ind_parameters d)) @ '')''
      in if path_safe encoded then Inr encoded else Inl ValueError)"

text \<open>Modelled from the spec: a trading pair, with the tickers of its base and quote assets
  and the rest of its identity (the tests read \<^verbatim>\<open>internal_id\<close>).\<close>

record TradingPairIdentifier =
  base_ticker :: string
  quote_ticker :: string
  internal_id :: nat

text \<open>Modelled from the spec: \<^verbatim>\<open>IndicatorStorage\<close> of section 3, a root directory and a
  universe key, and its artifact path of section 4.2 (\<^verbatim>\<open>get_indicator_path\<close> in the tests,
  with the extension \<^verbatim>\<open>parquet\<close>).\<close>

record IndicatorStorage =
  storage_path :: Path
  universe_key :: string

definition get_indicator_path ::
  "IndicatorStorage \<Rightarrow> ('c, 'd) IndicatorDefinition \<Rightarrow> TradingPairIdentifier \<Rightarrow> exn + Path" where
  "get_indicator_path storage d pair =
     (case render_path_fragment d of
        Inl e \<Rightarrow> Inl e
      | Inr fragment \<Rightarrow>
          Inr (joinpath (joinpath (storage_path storage) (Path_of (universe_key storage)))
                 (Path_of (fragment @ ''-'' @ base_ticker pair @ ''-'' @ quote_ticker pair
                           @ ''.parquet''))))"

text \<open>Modelled from the spec: the cache of section 4.2 as a store from artifact paths to
  artifacts; \<open>storage_has\<close>, \<open>storage_load\<close> and \<open>storage_save\<close> are \<^verbatim>\<open>has\<close>, \<^verbatim>\<open>load\<close>
  and \<^verbatim>\<open>save\<close>, each on the artifact path of its key. A save publishes the whole artifact
  at once and a load gives back what was saved; a file that does not parse is \<open>Corrupt\<close>.\<close>

datatype 'd artifact = Artifact 'd | Corrupt

type_synonym 'd artifact_store = "(Path \<times> 'd artifact) list"

definition storage_has ::
  "IndicatorStorage \<Rightarrow> 'd artifact_store
   \<Rightarrow> TradingPairIdentifier \<times> ('c, 'd) IndicatorDefinition \<Rightarrow> exn + bool" where
  "storage_has storage store key =
     (case get_indicator_path storage (snd key) (fst key) of
        Inl e \<Rightarrow> Inl e
      | Inr p \<Rightarrow> Inr (map_of store p \<noteq> None))"

definition storage_load ::
  "IndicatorStorage \<Rightarrow> 'd artifact_store
   \<Rightarrow> TradingPairIdentifier \<times> ('c, 'd) IndicatorDefinition \<Rightarrow> exn + 'd" where
  "storage_load storage store key =
     (case get_indicator_path storage (snd key) (fst key) of
        Inl e \<Rightarrow> Inl e
      | Inr p \<Rightarrow>
          (case map_of store p of
             None \<Rightarrow> Inl FileNotFoundError
           | Some Corrupt \<Rightarrow> Inl CacheCorruptError
           | Some (Artifact d) \<Rightarrow> Inr d))"

definition storage_save ::
  "IndicatorStorage \<Rightarrow> 'd artifact_store
   \<Rightarrow> TradingPairIdentifier \<times> ('c, 'd) IndicatorDefinition \<Rightarrow> 'd \<Rightarrow> exn + 'd artifact_store" where
  "storage_save storage store key d =
     (case get_indicator_path storage (snd key) (fst key) of
        Inl e \<Rightarrow> Inl e
      | Inr p \<Rightarrow> Inr ((p, Artifact d) # store))"

text \<open>Modelled from the spec: \<^verbatim>\<open>IndicatorResult\<close> of section 3.\<close>

record ('c, 'd) IndicatorResult =
  result_pair :: TradingPairIdentifier
  result_definition :: "('c, 'd) IndicatorDefinition"
  result_data :: 'd
  result_cached :: bool

text \<open>Modelled from the spec: the trading universe of section 6, its pairs and their candle
  data.\<close>

record 'c TradingStrategyUniverse =
  universe_pairs :: "TradingPairIdentifier list"
  candles :: "TradingPairIdentifier \<Rightarrow> 'c"

text \<open>Modelled from the spec: step 1 of \<^verbatim>\<open>calculate_and_load_indicators\<close>. The callback
  \<^verbatim>\<open>create_indicators\<close> is the list of the registrations it makes for the given strategy
  parameters; the first one that fails ends it.\<close>

type_synonym ('c, 'd) registration = "string \<times> ('c, 'd) IndicatorFunction \<times> (string \<times> py_value) list"

fun materialise ::
  "('c, 'd) IndicatorSet \<Rightarrow> ('c, 'd) registration list \<Rightarrow> exn + ('c, 'd) IndicatorSet" where
  "materialise indicators [] = Inr indicators"
| "materialise indicators ((nm, func, params) # rest) =
     (case IndicatorSet_add indicators nm func params of
        (Inl e, indicators') \<Rightarrow> Inl e
      | (Inr ok, indicators') \<Rightarrow> materialise indicators' rest)"

text \<open>Modelled from the spec: steps 4 and 5, each entry that needs computing is computed from
  its pair's candle data and saved before it is returned.\<close>

fun calculate_indicators ::
  "'c TradingStrategyUniverse \<Rightarrow> IndicatorStorage
   \<Rightarrow> (TradingPairIdentifier \<times> ('c, 'd) IndicatorDefinition) list \<Rightarrow> 'd artifact_store
   \<Rightarrow> exn + ('d artifact_store \<times> ('c, 'd) IndicatorResult list)" where
  "calculate_indicators universe storage [] store = Inr (store, [])"
| "calculate_indicators universe storage (key # keys) store =
     (case transform (ind_func (snd key)) (candles universe (fst key)) (ind_parameters (snd key)) of
        Inl e \<Rightarrow> Inl e
      | Inr d \<Rightarrow>
          (case storage_save storage store key d of
             Inl e \<Rightarrow> Inl e
           | Inr store1 \<Rightarrow>
               (case calculate_indicators universe storage keys store1 of
                  Inl e \<Rightarrow> Inl e
                | Inr (store', rs) \<Rightarrow>
                    Inr (store',
                         \<lparr>result_pair = fst key, result_definition = snd key,
                          result_data = d, result_cached = False\<rparr> # rs))))"

text \<open>Modelled from the spec: step 3, the keys parted into the cached ones and the ones that
  need computing by \<^verbatim>\<open>has\<close>, and the cached ones loaded from the store.\<close>

fun partition_cached ::
  "IndicatorStorage \<Rightarrow> 'd artifact_store
   \<Rightarrow> (TradingPairIdentifier \<times> ('c, 'd) IndicatorDefinition) list
   \<Rightarrow> exn + ((TradingPairIdentifier \<times> ('c, 'd) IndicatorDefinition) list
            \<times> (TradingPairIdentifier \<times> ('c, 'd) IndicatorDefinition) list)" where
  "partition_cached storage store [] = Inr ([], [])"
| "partition_cached storage store (key # keys) =
     (case storage_has storage store key of
        Inl e \<Rightarrow> Inl e
      | Inr present \<Rightarrow>
          (case partition_cached storage store keys of
             Inl e \<Rightarrow> Inl e
           | Inr (cached_keys, needed_keys) \<Rightarrow>
               Inr (if present then (key # cached_keys, needed_keys)
                    else (cached_keys, key # needed_keys))))"

definition load_indicators ::
  "IndicatorStorage \<Rightarrow> 'd artifact_store
   \<Rightarrow> (TradingPairIdentifier \<times> ('c, 'd) IndicatorDefinition) list
   \<Rightarrow> exn + ('c, 'd) IndicatorResult list" where
  "load_indicators storage store keys =
     map_err (\<lambda>key. case storage_load storage store key of
                      Inl e \<Rightarrow> Inl e
                    | Inr d \<Rightarrow> Inr \<lparr>result_pair = fst key, result_definition = snd key,
                                     result_data = d, result_cached = True\<rparr>) keys"

text \<open>Modelled from the spec: step 2, the keys of a call: every pair of the universe with every
  registered indicator.\<close>

definition all_combinations ::
  "'c TradingStrategyUniverse \<Rightarrow> ('c, 'd) IndicatorSet
   \<Rightarrow> (TradingPairIdentifier \<times> ('c, 'd) IndicatorDefinition) list" where
  "all_combinations universe indicators =
     List.product (universe_pairs universe) (map snd indicators)"

text \<open>Modelled from the spec: \<^verbatim>\<open>calculate_and_load_indicators\<close> of section 4.3, steps 1 to
  6. The workers and readers of the specification work on disjoint keys; the model runs them
  one after the other. The result is the list of the results, the cached ones first.\<close>

definition calculate_and_load_indicators ::
  "'c TradingStrategyUniverse \<Rightarrow> IndicatorStorage \<Rightarrow> ('p \<Rightarrow> ('c, 'd) registration list) \<Rightarrow> 'p
   \<Rightarrow> 'd artifact_store \<Rightarrow> exn + ('d artifact_store \<times> ('c, 'd) IndicatorResult list)" where
  "calculate_and_load_indicators universe storage create_indicators params store =
     (case materialise [] (create_indicators params) of
        Inl e \<Rightarrow> Inl e
      | Inr indicators \<Rightarrow>
          (case partition_cached storage store (all_combinations universe indicators) of
             Inl e \<Rightarrow> Inl e
           | Inr (cached_keys, needed_keys) \<Rightarrow>
               (case load_indicators storage store cached_keys of
                  Inl e \<Rightarrow> Inl e
                | Inr loaded \<Rightarrow>
                    (case calculate_indicators universe storage needed_keys store of
                       Inl e \<Rightarrow> Inl e
                     | Inr (store', calculated) \<Rightarrow> Inr (store', loaded @ calculated)))))"

text \<open>The result of a key in a result list.\<close>

definition result_of ::
  "('c, 'd) IndicatorResult list \<Rightarrow> TradingPairIdentifier \<times> ('c, 'd) IndicatorDefinition
   \<Rightarrow> ('c, 'd) IndicatorResult option" where
  "result_of rs key = find (\<lambda>r. (result_pair r, result_definition r) = key) rs"

subsection \<open>Two universes for concrete runs\<close>

text \<open>
  Modelled from the spec: the universe of the tests' fixture \<^verbatim>\<open>strategy_universe\<close>, the pairs
  WETH-USDC and WBTC-USDC with one number standing for each pair's candle data, and a
  universe with WETH-USDC listed on two exchanges. The indicator returns the candle data
  plus its \<^verbatim>\<open>length\<close> parameter.
\<close>

definition weth_usdc :: TradingPairIdentifier where
  "weth_usdc = \<lparr>base_ticker = ''WETH'', quote_ticker = ''USDC'', internal_id = 1\<rparr>"

definition wbtc_usdc :: TradingPairIdentifier where
  "wbtc_usdc = \<lparr>base_ticker = ''WBTC'', quote_ticker = ''USDC'', internal_id = 2\<rparr>"

definition weth_usdc_other_exchange :: TradingPairIdentifier where
  "weth_usdc_other_exchange =
     \<lparr>base_ticker = ''WETH'', quote_ticker = ''USDC'', internal_id = 3\<rparr>"

definition strategy_universe :: "int TradingStrategyUniverse" where
  "strategy_universe =
     \<lparr>universe_pairs = [weth_usdc, wbtc_usdc],
      candles = (\<lambda>p. if internal_id p = 1 then 3000 else 50000)\<rparr>"

definition two_exchange_universe :: "int TradingStrategyUniverse" where
  "two_exchange_universe =
     \<lparr>universe_pairs = [weth_usdc, weth_usdc_other_exchange],
      candles = (\<lambda>p. if internal_id p = 1 then 3000 else 3001)\<rparr>"

definition shifted_close :: "(int, int) IndicatorFunction" where
  "shifted_close =
     \<lparr>accepted_arguments = [''close'', ''length''],
      transform = (\<lambda>c ps. case map_of ps ''length'' of
                            Some (PyInt n) \<Rightarrow> Inr (c + n)
                          | _ \<Rightarrow> Inl TypeError)\<rparr>"

definition create_shifted :: "int \<Rightarrow> (int, int) registration list" where
  "create_shifted n = [(''shifted'', shifted_close, [(''length'', PyInt n)])]"

definition shifted_definition :: "int \<Rightarrow> (int, int) IndicatorDefinition" where
  "shifted_definition n =
     \<lparr>ind_name = ''shifted'', ind_func = shifted_close, ind_parameters = [(''length'', PyInt n)]\<rparr>"

definition cache_storage :: IndicatorStorage where
  "cache_storage = \<lparr>storage_path = Path_of ''/cache'', universe_key = ''u''\<rparr>"

section \<open>Properties of the combination builder\<close>

subsection \<open>Auxiliary facts\<close>

lemma map_err_all_Inr:
  "(\<And>x. x \<in> set xs \<Longrightarrow> f x = Inr (g x)) \<Longrightarrow> map_err f xs = Inr (map g xs)"
  by (induction xs) auto

lemma map_err_Inl_elem:
  "map_err f xs = Inl e \<Longrightarrow> \<exists>x\<in>set xs. f x = Inl e"
  by (induction xs) (auto split: sum.splits)

lemma map_err_some_Inl:
  "x \<in> set xs \<Longrightarrow> f x = Inl e \<Longrightarrow> \<exists>e'. map_err f xs = Inl e'"
  by (induction xs) (auto split: sum.splits)

lemma map_err_Inr_length:
  "map_err f xs = Inr ys \<Longrightarrow> length ys = length xs"
  by (induction xs arbitrary: ys) (auto split: sum.splits)

lemma dict_by_name_other:
  "nm \<notin> param_name ` set c \<Longrightarrow> dict_by_name m c nm = m nm"
  by (induction c arbitrary: m) auto

lemma dict_by_name_distinct:
  "distinct (map param_name c) \<Longrightarrow> p \<in> set c \<Longrightarrow> dict_by_name m c (param_name p) = Some p"
proof (induction c arbitrary: m)
  case Nil
  then show ?case by simp
next
  case (Cons a c)
  show ?case
  proof (cases "p = a")
    case True
    with Cons.prems show ?thesis by (simp add: dict_by_name_other)
  next
    case False
    with Cons show ?thesis by simp
  qed
qed

lemma sort_by_order_id:
  assumes "distinct (map param_name c)"
  shows "sort_by_order (map param_name c) c = Inr c"
proof -
  let ?temp = "dict_by_name Map.empty c"
  have "map_err (\<lambda>ou. case ?temp ou of None \<Rightarrow> Inl KeyError | Some p \<Rightarrow> Inr p) (map param_name c)
        = Inr (map (\<lambda>ou. the (?temp ou)) (map param_name c))"
    by (rule map_err_all_Inr) (auto simp: dict_by_name_distinct [OF assms])
  also have "map (\<lambda>ou. the (?temp ou)) (map param_name c) = c"
    by (simp add: map_idI dict_by_name_distinct [OF assms] o_def)
  finally show ?thesis unfolding sort_by_order_def Let_def .
qed

lemma product_args_names:
  "c \<in> set (product_lists (args_lists g)) \<Longrightarrow> map param_name c = map fst g"
  by (induction g arbitrary: c) (auto simp: args_lists_def)

lemma os_mkdir_is_dir: "os_mkdir fs p = Inr fs' \<Longrightarrow> is_dir fs' p"
  by (auto simp: os_mkdir_def is_dir_def node_at_def split: if_splits option.splits node.splits)

lemma mkdir_parents_is_dir: "mkdir_parents fs p = Inr fs' \<Longrightarrow> is_dir fs' p"
  by (subst (asm) mkdir_parents.simps)
     (auto split: sum.splits if_splits dest: os_mkdir_is_dir)

lemma prepare_result_path_is_dir:
  "prepare_result_path fs rp clr = Inr fs' \<Longrightarrow> is_dir fs' rp"
  by (auto simp: prepare_result_path_def split: sum.splits dest: mkdir_parents_is_dir)

lemma is_dir_exists: "is_dir fs p \<Longrightarrow> path_exists fs p"
  by (simp add: is_dir_def path_exists_def)

lemma validate_supported:
  assumes "ps \<noteq> []" "\<forall>p\<in>set ps. path_supported (param_value p)"
  shows "validate \<lparr>result_path = rp, parameters = ps\<rparr> = Inr ()"
proof -
  have "map_err to_path ps = Inr (map (\<lambda>p. param_name p @ ''='' @ format_value (param_value p)) ps)"
    using assms(2) by (intro map_err_all_Inr) (simp add: to_path_def)
  with assms(1) show ?thesis
    by (cases ps) (simp_all add: validate_def get_relative_result_path_def)
qed

lemma validate_unsupported:
  assumes "p \<in> set ps" "\<not> path_supported (param_value p)"
  shows "validate \<lparr>result_path = rp, parameters = ps\<rparr> = Inl NotImplementedError"
proof -
  from assms obtain e where e: "map_err to_path ps = Inl e"
    using map_err_some_Inl [of p ps to_path NotImplementedError] by (auto simp: to_path_def)
  then obtain q where "q \<in> set ps" "to_path q = Inl e"
    using map_err_Inl_elem by blast
  then have "e = NotImplementedError" by (auto simp: to_path_def split: if_splits)
  with e show ?thesis by (simp add: validate_def get_relative_result_path_def)
qed

lemma validate_Inl:
  "validate c = Inl e \<Longrightarrow> parameters c \<noteq> [] \<Longrightarrow> e = NotImplementedError"
proof -
  assume a: "validate c = Inl e" and ne: "parameters c \<noteq> []"
  show ?thesis
  proof (cases "map_err to_path (parameters c)")
    case (Inl e')
    then obtain q where "q \<in> set (parameters c)" "to_path q = Inl e'"
      using map_err_Inl_elem by blast
    then have "e' = NotImplementedError" by (auto simp: to_path_def split: if_splits)
    with a Inl show ?thesis by (simp add: validate_def get_relative_result_path_def)
  next
    case (Inr ss)
    with ne have "ss \<noteq> []" using map_err_Inr_length by fastforce
    with a Inr show ?thesis
      by (cases ss) (simp_all add: validate_def get_relative_result_path_def)
  qed
qed

lemma product_args_nonempty:
  "g \<noteq> [] \<Longrightarrow> c \<in> set (product_lists (args_lists g)) \<Longrightarrow> c \<noteq> []"
  using product_args_names [of c g] by auto

lemma prepare_grid_combinations_outcome:
  assumes dir: "prepare_result_path fs rp clr = Inr fs'"
    and ne: "g \<noteq> []"
    and dk: "distinct (map fst g)"
  shows "prepare_grid_combinations g rp clr fs =
     (if \<forall>c\<in>set (product_lists (args_lists g)). \<forall>p\<in>set c. path_supported (param_value p)
      then Inr (fs', map (\<lambda>ps. \<lparr>result_path = rp, parameters = ps\<rparr>) (product_lists (args_lists g)))
      else Inl NotImplementedError)"
proof -
  let ?prod = "product_lists (args_lists g)"
  let ?mk = "\<lambda>ps. \<lparr>result_path = rp, parameters = ps\<rparr>"
  let ?build = "\<lambda>c. case sort_by_order (map fst g) c of
                         Inl e \<Rightarrow> Inl e
                       | Inr ps \<Rightarrow> GridCombination_init fs' rp ps"
  have okdir: "path_exists fs' rp \<and> is_dir fs' rp"
    using prepare_result_path_is_dir [OF dir] is_dir_exists by blast
  have build: "?build c = Inr (?mk c)" if "c \<in> set ?prod" for c
  proof -
    have nm: "map param_name c = map fst g" using that by (rule product_args_names)
    with dk have "sort_by_order (map fst g) c = Inr c"
      using sort_by_order_id [of c] by simp
    moreover have "c \<noteq> []" using ne that by (rule product_args_nonempty)
    ultimately show ?thesis using okdir by (simp add: GridCombination_init_def)
  qed
  have first: "map_err ?build ?prod = Inr (map ?mk ?prod)"
    by (rule map_err_all_Inr) (rule build)
  have unf: "prepare_grid_combinations g rp clr fs =
      (case map_err validate (map ?mk ?prod) of
         Inl e \<Rightarrow> Inl e
       | Inr oks \<Rightarrow> Inr (fs', map ?mk ?prod))"
    by (simp only: prepare_grid_combinations_def dir sum.case first)
  show ?thesis
  proof (cases "\<forall>c\<in>set ?prod. \<forall>p\<in>set c. path_supported (param_value p)")
    case True
    have "map_err validate (map ?mk ?prod) = Inr (map (\<lambda>c. ()) (map ?mk ?prod))"
    proof (rule map_err_all_Inr)
      fix c assume "c \<in> set (map ?mk ?prod)"
      then obtain ps where ps: "ps \<in> set ?prod" "c = ?mk ps" by auto
      then have "ps \<noteq> []" using ne product_args_nonempty by blast
      with True ps show "validate c = Inr ()" by (simp add: validate_supported)
    qed
    then show ?thesis by (simp only: unf sum.case if_P [OF True])
  next
    case False
    then obtain ps p where ps: "ps \<in> set ?prod" "p \<in> set ps" "\<not> path_supported (param_value p)"
      by blast
    have bad: "validate (?mk ps) = Inl NotImplementedError"
      using ps(2,3) by (rule validate_unsupported)
    have mem: "?mk ps \<in> set (map ?mk ?prod)" using ps(1) by simp
    from map_err_some_Inl [of "?mk ps" "map ?mk ?prod" validate NotImplementedError, OF mem bad]
    obtain e where e: "map_err validate (map ?mk ?prod) = Inl e" ..
    from map_err_Inl_elem [of validate "map ?mk ?prod" e, OF e]
    obtain c where c: "c \<in> set (map ?mk ?prod)" "validate c = Inl e" ..
    from c(1) obtain qs where qs: "qs \<in> set ?prod" "c = ?mk qs" by auto
    have "qs \<noteq> []" using ne qs(1) by (rule product_args_nonempty)
    then have "parameters c \<noteq> []" by (simp add: qs(2))
    from validate_Inl [OF c(2) this] have "e = NotImplementedError" .
    with e have "map_err validate (map ?mk ?prod) = Inl NotImplementedError" by (simp only:)
    then show ?thesis by (simp only: unf sum.case if_not_P [OF False])
  qed
qed

lemma args_lists_supported:
  assumes "\<forall>(nm, vs)\<in>set g. \<forall>v\<in>set vs. path_supported v"
    and "c \<in> set (product_lists (args_lists g))" and "p \<in> set c"
  shows "path_supported (param_value p)"
  using assms
proof (induction g arbitrary: c)
  case Nil
  then show ?case by (simp add: args_lists_def)
next
  case (Cons a g)
  then show ?case by (cases a) (auto simp: args_lists_def)
qed

lemma length_product_args:
  "length (product_lists (args_lists g)) = prod_list (map (\<lambda>(nm, vs). length vs) g)"
proof (induction g)
  case Nil
  show ?case by (simp add: args_lists_def)
next
  case (Cons a g)
  obtain nm vs where a: "a = (nm, vs)" by (cases a)
  have "args_lists (a # g) = map (\<lambda>v. \<lparr>param_name = nm, param_value = v\<rparr>) vs # args_lists g"
    by (simp add: args_lists_def a)
  then show ?case using Cons.IH
    by (simp add: a length_concat o_def sum_list_triv)
qed


text \<open>The definitions a concrete file-system state is evaluated with.\<close>

lemmas fs_eval = prepare_result_path_def mkdir_parents.simps os_mkdir_def node_at_def
  path_exists_def is_dir_def parent_def rmdir_def has_entries_def Path_of_def

lemmas builder_eval = prepare_grid_combinations_def args_lists_def sort_by_order_def
  GridCombination_init_def validate_def get_relative_result_path_def to_path_def

lemmas path_eval = get_full_result_path_def get_relative_result_path_def to_path_def
  digits10.simps str_int_def Path_of_def joinpath_def

subsection \<open>The claims about the builder\<close>

text \<open>
  C10. Preparing an empty grid raises: when the directory set-up succeeds, the one (empty)
  element of the product fails the assertion of the constructor of \<open>GridCombination\<close>; when
  it does not, its own error is raised. No list of combinations is returned either way.
\<close>

theorem prepare_grid_combinations_empty_grid:
  "prepare_grid_combinations [] rp clr fs =
     (case prepare_result_path fs rp clr of Inl e \<Rightarrow> Inl e | Inr fs' \<Rightarrow> Inl AssertionError)"
  by (simp add: prepare_grid_combinations_def args_lists_def sort_by_order_def
      GridCombination_init_def split: sum.splits)

text \<open>
  C3 (as amended). For every grid with at least one name, whose candidate values all have
  type \<^verbatim>\<open>int\<close>, \<^verbatim>\<open>float\<close> or \<^verbatim>\<open>str\<close>, and whose result directory could be set up,
  \<open>prepare_grid_combinations\<close> returns exactly the Cartesian product of the candidate
  lists, in the order of \<^verbatim>\<open>itertools.product\<close>: as many combinations as the product of the
  lengths of the lists, each with its parameters in the declaration order of the grid's keys
  and with the given result path.
\<close>

theorem prepare_grid_combinations_product:
  assumes "prepare_result_path fs rp clr = Inr fs'"
    and "g \<noteq> []"
    and "distinct (map fst g)"
    and "\<forall>(nm, vs)\<in>set g. \<forall>v\<in>set vs. path_supported v"
  shows "\<exists>cs. prepare_grid_combinations g rp clr fs = Inr (fs', cs)
           \<and> map parameters cs = product_lists (args_lists g)
           \<and> length cs = prod_list (map (\<lambda>(nm, vs). length vs) g)
           \<and> (\<forall>c\<in>set cs. map param_name (parameters c) = map fst g \<and> result_path c = rp)"
proof -
  let ?prod = "product_lists (args_lists g)"
  let ?cs = "map (\<lambda>ps. \<lparr>result_path = rp, parameters = ps\<rparr>) ?prod"
  have "\<forall>c\<in>set ?prod. \<forall>p\<in>set c. path_supported (param_value p)"
    using args_lists_supported [OF assms(4)] by blast
  then have "prepare_grid_combinations g rp clr fs = Inr (fs', ?cs)"
    using prepare_grid_combinations_outcome [OF assms(1-3)] by simp
  moreover have "map parameters ?cs = ?prod" by (simp add: o_def)
  moreover have "length ?cs = prod_list (map (\<lambda>(nm, vs). length vs) g)"
    by (simp add: length_product_args)
  moreover have "\<forall>c\<in>set ?cs. map param_name (parameters c) = map fst g \<and> result_path c = rp"
    by (auto simp: product_args_names)
  ultimately show ?thesis by blast
qed

text \<open>The grid \<^verbatim>\<open>{"a": [1, 2], "b": [10, 20]}\<close> of the specification: four combinations,
  \<open>a\<close> before \<open>b\<close> in each.\<close>

theorem prepare_grid_combinations_product_witness:
  "\<exists>cs. prepare_grid_combinations
           [(''a'', [PyInt 1, PyInt 2]), (''b'', [PyInt 10, PyInt 20])]
           (Path_of ''/tmp/grid'') False [(Path True [''tmp''], Dir :: unit node)]
         = Inr ([(Path True [''tmp'', ''grid''], Dir), (Path True [''tmp''], Dir)], cs)
       \<and> map parameters cs =
           [[\<lparr>param_name = ''a'', param_value = PyInt 1\<rparr>, \<lparr>param_name = ''b'', param_value = PyInt 10\<rparr>],
            [\<lparr>param_name = ''a'', param_value = PyInt 1\<rparr>, \<lparr>param_name = ''b'', param_value = PyInt 20\<rparr>],
            [\<lparr>param_name = ''a'', param_value = PyInt 2\<rparr>, \<lparr>param_name = ''b'', param_value = PyInt 10\<rparr>],
            [\<lparr>param_name = ''a'', param_value = PyInt 2\<rparr>, \<lparr>param_name = ''b'', param_value = PyInt 20\<rparr>]]
       \<and> length cs = 4"
proof -
  let ?g = "[(''a'', [PyInt 1, PyInt 2]), (''b'', [PyInt 10, PyInt 20])]"
  have h1: "prepare_result_path [(Path True [''tmp''], Dir :: unit node)] (Path_of ''/tmp/grid'') False
            = Inr [(Path True [''tmp'', ''grid''], Dir), (Path True [''tmp''], Dir)]"
    by (simp add: fs_eval)
  have h2: "?g \<noteq> []" by simp
  have h3: "distinct (map fst ?g)" by simp
  have h4: "\<forall>(nm, vs)\<in>set ?g. \<forall>v\<in>set vs. path_supported v" by simp
  from prepare_grid_combinations_product [OF h1 h2 h3 h4]
  obtain cs where c1:
    "prepare_grid_combinations ?g (Path_of ''/tmp/grid'') False [(Path True [''tmp''], Dir :: unit node)]
       = Inr ([(Path True [''tmp'', ''grid''], Dir), (Path True [''tmp''], Dir)], cs)"
    and c2: "map parameters cs = product_lists (args_lists ?g)"
    and c3: "length cs = prod_list (map (\<lambda>(nm, vs). length vs) ?g)"
    by (elim exE conjE)
  have p: "product_lists (args_lists ?g) =
           [[\<lparr>param_name = ''a'', param_value = PyInt 1\<rparr>, \<lparr>param_name = ''b'', param_value = PyInt 10\<rparr>],
            [\<lparr>param_name = ''a'', param_value = PyInt 1\<rparr>, \<lparr>param_name = ''b'', param_value = PyInt 20\<rparr>],
            [\<lparr>param_name = ''a'', param_value = PyInt 2\<rparr>, \<lparr>param_name = ''b'', param_value = PyInt 10\<rparr>],
            [\<lparr>param_name = ''a'', param_value = PyInt 2\<rparr>, \<lparr>param_name = ''b'', param_value = PyInt 20\<rparr>]]"
    by (simp add: args_lists_def)
  have n: "prod_list (map (\<lambda>(nm, vs). length vs) ?g) = 4" by simp
  show ?thesis
    by (rule exI [of _ cs]) (simp only: c1 c2 c3 p n simp_thms)
qed

text \<open>The claim as it was stated fails where a candidate value has another type, here a
  \<^verbatim>\<open>bool\<close> (\<open>to_path\<close> raises \<^verbatim>\<open>NotImplementedError\<close>), and at the grid with no name
  (the constructor's assertion fails).\<close>

theorem prepare_grid_combinations_product_counterexample:
  "prepare_grid_combinations [(''a'', [PyBool True])] (Path_of ''/tmp/grid'') False
      [(Path True [''tmp''], Dir :: unit node)] = Inl NotImplementedError
   \<and> prepare_grid_combinations [] (Path_of ''/tmp/grid'') False
      [(Path True [''tmp''], Dir :: unit node)] = Inl AssertionError"
  by (simp add: builder_eval fs_eval)

text \<open>
  C5 (as amended). The builder does not look for collisions. Once the result directory is set
  up, for a grid with at least one name the only check is on the combinations it produces:
  when every parameter value of every produced combination has type \<^verbatim>\<open>int\<close>,
  \<^verbatim>\<open>float\<close> or \<^verbatim>\<open>str\<close>, all the combinations are returned, whether or not two of them
  derive the same result subdirectory; when a produced combination holds a value of another
  type, \<^verbatim>\<open>NotImplementedError\<close> is raised during the preparation.
\<close>

theorem prepare_grid_combinations_checks_types_only:
  assumes "prepare_result_path fs rp clr = Inr fs'"
    and "g \<noteq> []"
    and "distinct (map fst g)"
  shows "prepare_grid_combinations g rp clr fs =
     (if \<forall>c\<in>set (product_lists (args_lists g)). \<forall>p\<in>set c. path_supported (param_value p)
      then Inr (fs', map (\<lambda>ps. \<lparr>result_path = rp, parameters = ps\<rparr>) (product_lists (args_lists g)))
      else Inl NotImplementedError)"
  using assms by (rule prepare_grid_combinations_outcome)

text \<open>The grid \<^verbatim>\<open>{"a": [1, "1"]}\<close>: both combinations are returned.\<close>

theorem prepare_grid_combinations_checks_types_only_witness:
  "prepare_grid_combinations [(''a'', [PyInt 1, PyStr ''1''])] (Path_of ''/tmp/grid'') False
      [(Path True [''tmp''], Dir :: unit node)] =
    Inr ([(Path True [''tmp'', ''grid''], Dir), (Path True [''tmp''], Dir)],
         [\<lparr>result_path = Path True [''tmp'', ''grid''],
           parameters = [\<lparr>param_name = ''a'', param_value = PyInt 1\<rparr>]\<rparr>,
          \<lparr>result_path = Path True [''tmp'', ''grid''],
           parameters = [\<lparr>param_name = ''a'', param_value = PyStr ''1''\<rparr>]\<rparr>])"
proof -
  let ?g = "[(''a'', [PyInt 1, PyStr ''1''])]"
  have h1: "prepare_result_path [(Path True [''tmp''], Dir :: unit node)] (Path_of ''/tmp/grid'') False
            = Inr [(Path True [''tmp'', ''grid''], Dir), (Path True [''tmp''], Dir)]"
    by (simp add: fs_eval)
  have h2: "?g \<noteq> []" by simp
  have h3: "distinct (map fst ?g)" by simp
  from prepare_grid_combinations_checks_types_only [OF h1 h2 h3]
  show ?thesis by (simp add: args_lists_def Path_of_def)
qed

text \<open>The claim as it was stated fails at that grid: the two combinations are not equal
  (\<^verbatim>\<open>1 != "1"\<close>), both derive the directory \<^verbatim>\<open>/tmp/grid/a=1\<close>, and the preparation
  returns them without an error.\<close>

theorem prepare_grid_combinations_collision_counterexample:
  "prepare_grid_combinations [(''a'', [PyInt 1, PyStr ''1''])] (Path_of ''/tmp/grid'') False
      [(Path True [''tmp''], Dir :: unit node)] =
    Inr ([(Path True [''tmp'', ''grid''], Dir), (Path True [''tmp''], Dir)],
         [\<lparr>result_path = Path True [''tmp'', ''grid''],
           parameters = [\<lparr>param_name = ''a'', param_value = PyInt 1\<rparr>]\<rparr>,
          \<lparr>result_path = Path True [''tmp'', ''grid''],
           parameters = [\<lparr>param_name = ''a'', param_value = PyStr ''1''\<rparr>]\<rparr>])
   \<and> \<not> GridCombination_eq
        \<lparr>result_path = Path True [''tmp'', ''grid''],
         parameters = [\<lparr>param_name = ''a'', param_value = PyInt 1\<rparr>]\<rparr>
        \<lparr>result_path = Path True [''tmp'', ''grid''],
         parameters = [\<lparr>param_name = ''a'', param_value = PyStr ''1''\<rparr>]\<rparr>
   \<and> get_full_result_path
        \<lparr>result_path = Path True [''tmp'', ''grid''],
         parameters = [\<lparr>param_name = ''a'', param_value = PyInt 1\<rparr>]\<rparr>
       = Inr (Path True [''tmp'', ''grid'', ''a=1''])
   \<and> get_full_result_path
        \<lparr>result_path = Path True [''tmp'', ''grid''],
         parameters = [\<lparr>param_name = ''a'', param_value = PyStr ''1''\<rparr>]\<rparr>
       = Inr (Path True [''tmp'', ''grid'', ''a=1''])"
  by (simp add: builder_eval fs_eval path_eval GridCombination_eq_def GridParameter_eq_def
      py_eq_def)

text \<open>A grid with an empty candidate list produces no combination, so no value is checked:
  the \<^verbatim>\<open>bool\<close> in the other list raises nothing.\<close>

lemma prepare_grid_combinations_empty_candidates:
  "prepare_grid_combinations [(''a'', []), (''b'', [PyBool True])] (Path_of ''/tmp/grid'') False
      [(Path True [''tmp''], Dir :: unit node)]
   = Inr ([(Path True [''tmp'', ''grid''], Dir), (Path True [''tmp''], Dir)], [])"
  by (simp add: builder_eval fs_eval)

text \<open>
  C6. With \<^verbatim>\<open>clear_cached_results=True\<close> the builder calls \<^verbatim>\<open>rmdir\<close> on the result
  directory, which removes an empty directory only. Where the directory holds a cached
  result the call raises and nothing is cleared, whatever the grid: here
  \<^verbatim>\<open>/tmp/grid/a=1/result.pickle\<close> exists.
\<close>

theorem prepare_grid_combinations_clear_raises:
  "prepare_grid_combinations g (Path_of ''/tmp/grid'') True
      [(Path True [''tmp'', ''grid'', ''a=1'', ''result.pickle''], File ''pickle''),
       (Path True [''tmp'', ''grid'', ''a=1''], Dir),
       (Path True [''tmp'', ''grid''], Dir),
       (Path True [''tmp''], Dir)] = Inl DirectoryNotEmpty"
  by (simp add: prepare_grid_combinations_def fs_eval)

text \<open>The same for every result directory that holds an entry, and what the set-up does
  keep: without \<^verbatim>\<open>clear_cached_results\<close> every node that was there stays as it was.\<close>

lemma prepare_grid_combinations_clear_nonempty:
  assumes "is_dir fs rp" and "has_entries fs rp"
  shows "prepare_grid_combinations g rp True fs = Inl DirectoryNotEmpty"
  using assms
  by (simp add: prepare_grid_combinations_def prepare_result_path_def rmdir_def is_dir_def
      path_exists_def)

lemma os_mkdir_keeps:
  "os_mkdir fs p = Inr fs' \<Longrightarrow> node_at fs q = Some n \<Longrightarrow> node_at fs' q = Some n"
  by (auto simp: os_mkdir_def node_at_def split: if_splits option.splits node.splits)

lemma mkdir_parents_keeps:
  "mkdir_parents fs p = Inr fs' \<Longrightarrow> node_at fs q = Some n \<Longrightarrow> node_at fs' q = Some n"
proof (induction fs p arbitrary: fs' rule: mkdir_parents.induct)
  case (1 fs p)
  show ?case
  proof (cases "os_mkdir fs p")
    case (Inr fs0)
    with "1.prems" show ?thesis
      by (subst (asm) mkdir_parents.simps) (auto dest: os_mkdir_keeps)
  next
    case (Inl e)
    show ?thesis
    proof (cases "e = FileNotFoundError \<and> components p \<noteq> []")
      case False
      with Inl "1.prems" show ?thesis
        by (subst (asm) mkdir_parents.simps) (auto split: if_splits)
    next
      case True
      with Inl "1.prems"(1) obtain fs1 where
        par: "mkdir_parents fs (parent p) = Inr fs1"
        and fin: "(case os_mkdir fs1 p of
                     Inr fs2 \<Rightarrow> Inr fs2
                   | Inl e2 \<Rightarrow> if e2 \<noteq> FileNotFoundError \<and> is_dir fs1 p then Inr fs1
                               else Inl e2) = Inr fs'"
        by (subst (asm) mkdir_parents.simps) (auto split: sum.splits)
      from "1.IH" [OF Inl _ _ par "1.prems"(2)] True
      have k1: "node_at fs1 q = Some n" by simp
      from fin show ?thesis
        using k1 by (auto split: sum.splits if_splits dest: os_mkdir_keeps)
    qed
  qed
qed

lemma prepare_result_path_keeps:
  "prepare_result_path fs rp False = Inr fs' \<Longrightarrow> node_at fs q = Some n \<Longrightarrow>
   node_at fs' q = Some n"
  by (simp add: prepare_result_path_def mkdir_parents_keeps)

text \<open>
  C7. Two combinations are equal exactly when their parameter tuples are, element by
  element: the result path takes no part. Equal combinations have equal hashes, under any
  hash seed.
\<close>

theorem GridCombination_eq_parameters_hash:
  "(GridCombination_eq \<lparr>result_path = rp, parameters = ps\<rparr> \<lparr>result_path = rq, parameters = qs\<rparr>
      \<longleftrightarrow> list_all2 GridParameter_eq ps qs)
   \<and> (GridCombination_eq c d \<longrightarrow> GridCombination_hash H c = GridCombination_hash H d)"
proof -
  have ph: "GridParameter_hash H p = GridParameter_hash H q" if "GridParameter_eq p q" for p q
    using that by (simp add: GridParameter_eq_def GridParameter_hash_def py_eq_def py_hash_def)
  have "map (GridParameter_hash H) xs = map (GridParameter_hash H) ys"
    if "list_all2 GridParameter_eq xs ys" for xs ys
    using that by (induction rule: list_all2_induct) (simp_all add: ph)
  then show ?thesis
    by (simp add: GridCombination_eq_def GridCombination_hash_def)
qed

text \<open>Two combinations with different result paths, one with the \<^verbatim>\<open>int\<close> 1 and one with
  the \<^verbatim>\<open>float\<close> 1.0: equal, with equal hashes.\<close>

theorem GridCombination_eq_parameters_hash_witness:
  "\<forall>H. GridCombination_eq
        \<lparr>result_path = Path True [''tmp'', ''x''],
         parameters = [\<lparr>param_name = ''a'', param_value = PyInt 1\<rparr>]\<rparr>
        \<lparr>result_path = Path True [''tmp'', ''y''],
         parameters = [\<lparr>param_name = ''a'', param_value = PyFloat 1 ''1.0''\<rparr>]\<rparr>
     \<and> GridCombination_hash H
          \<lparr>result_path = Path True [''tmp'', ''x''],
           parameters = [\<lparr>param_name = ''a'', param_value = PyInt 1\<rparr>]\<rparr>
       = GridCombination_hash H
          \<lparr>result_path = Path True [''tmp'', ''y''],
           parameters = [\<lparr>param_name = ''a'', param_value = PyFloat 1 ''1.0''\<rparr>]\<rparr>"
proof
  fix H
  let ?c = "\<lparr>result_path = Path True [''tmp'', ''x''],
         parameters = [\<lparr>param_name = ''a'', param_value = PyInt 1\<rparr>]\<rparr>"
  let ?d = "\<lparr>result_path = Path True [''tmp'', ''y''],
         parameters = [\<lparr>param_name = ''a'', param_value = PyFloat 1 ''1.0''\<rparr>]\<rparr>"
  have eq: "GridCombination_eq ?c ?d"
    by (simp add: GridCombination_eq_def GridParameter_eq_def py_eq_def)
  with GridCombination_eq_parameters_hash [of _ _ _ _ ?c ?d H]
  show "GridCombination_eq ?c ?d \<and> GridCombination_hash H ?c = GridCombination_hash H ?d"
    by blast
qed

section \<open>Properties of the search runner\<close>

lemmas run_eval = run_grid_combination_def has_result_def load_def save_def read_file_def
  write_file_def

text \<open>
  C2. With the relative result path \<^verbatim>\<open>results\<close> and the result of an earlier run stored at
  \<^verbatim>\<open>results/a=1/result.pickle\<close> (where \<open>save\<close> writes it and \<open>load\<close> reads it),
  \<open>has_result\<close> looks at \<^verbatim>\<open>results/results/a=1/result.pickle\<close>, finds nothing, and the
  worker runs again: the stored result (backtest 0) is not returned, the worker's (backtest 1)
  is, with \<open>cached\<close> false, and it is written over the stored one.
\<close>

theorem run_grid_combination_relative_path_reruns:
  "run_grid_combination
     (\<lambda>u c. Inr \<lparr>combination = c, backtest = 1 :: nat, cached = False\<rparr>) ()
     \<lparr>result_path = Path_of ''results'',
      parameters = [\<lparr>param_name = ''a'', param_value = PyInt 1\<rparr>]\<rparr>
     [(Path False [''results'', ''a=1'', ''result.pickle''],
         File (Pickled \<lparr>combination =
                 \<lparr>result_path = Path_of ''results'',
                  parameters = [\<lparr>param_name = ''a'', param_value = PyInt 1\<rparr>]\<rparr>,
               backtest = 0, cached = False\<rparr>)),
      (Path False [''results'', ''a=1''], Dir),
      (Path False [''results''], Dir)]
   = Inr ([(Path False [''results'', ''a=1'', ''result.pickle''],
             File (Pickled \<lparr>combination =
                 \<lparr>result_path = Path_of ''results'',
                  parameters = [\<lparr>param_name = ''a'', param_value = PyInt 1\<rparr>]\<rparr>,
               backtest = 1, cached = False\<rparr>)),
           (Path False [''results'', ''a=1'', ''result.pickle''],
             File (Pickled \<lparr>combination =
                 \<lparr>result_path = Path_of ''results'',
                  parameters = [\<lparr>param_name = ''a'', param_value = PyInt 1\<rparr>]\<rparr>,
               backtest = 0, cached = False\<rparr>)),
           (Path False [''results'', ''a=1''], Dir),
           (Path False [''results''], Dir)],
          \<lparr>combination =
                 \<lparr>result_path = Path_of ''results'',
                  parameters = [\<lparr>param_name = ''a'', param_value = PyInt 1\<rparr>]\<rparr>,
           backtest = 1, cached = False\<rparr>)"
  by (simp add: run_eval path_eval fs_eval)

text \<open>The same run where the result path is absolute, \<^verbatim>\<open>/results\<close>: the stored result is
  returned with \<open>cached\<close> true, whatever the worker.\<close>

lemma run_grid_combination_absolute_path_cached:
  "run_grid_combination w u
     \<lparr>result_path = Path_of ''/results'',
      parameters = [\<lparr>param_name = ''a'', param_value = PyInt 1\<rparr>]\<rparr>
     [(Path True [''results'', ''a=1'', ''result.pickle''],
         File (Pickled \<lparr>combination =
                 \<lparr>result_path = Path_of ''/results'',
                  parameters = [\<lparr>param_name = ''a'', param_value = PyInt 1\<rparr>]\<rparr>,
               backtest = 0 :: nat, cached = False\<rparr>)),
      (Path True [''results'', ''a=1''], Dir),
      (Path True [''results''], Dir)]
   = Inr ([(Path True [''results'', ''a=1'', ''result.pickle''],
             File (Pickled \<lparr>combination =
                 \<lparr>result_path = Path_of ''/results'',
                  parameters = [\<lparr>param_name = ''a'', param_value = PyInt 1\<rparr>]\<rparr>,
               backtest = 0, cached = False\<rparr>)),
           (Path True [''results'', ''a=1''], Dir),
           (Path True [''results''], Dir)],
          \<lparr>combination =
                 \<lparr>result_path = Path_of ''/results'',
                  parameters = [\<lparr>param_name = ''a'', param_value = PyInt 1\<rparr>]\<rparr>,
           backtest = 0, cached = True\<rparr>)"
  by (simp add: run_eval path_eval fs_eval)

text \<open>Where the result path is absolute, \<open>has_result\<close> looks where \<open>load\<close> and \<open>save\<close>
  do, and a stored result is returned as cached without the worker.\<close>

lemma has_result_absolute:
  assumes "is_absolute (result_path c)"
  shows "has_result fs c =
     (case get_full_result_path c of
        Inl e \<Rightarrow> Inl e
      | Inr base \<Rightarrow> Inr (path_exists fs (joinpath base (Path_of ''result.pickle''))))"
proof (cases "get_full_result_path c")
  case (Inl e)
  then show ?thesis by (simp add: has_result_def)
next
  case (Inr base)
  then have "is_absolute base"
    using assms by (auto simp: get_full_result_path_def joinpath_def split: sum.splits)
  then have "joinpath (result_path c) base = base" by (simp add: joinpath_def)
  with Inr show ?thesis by (simp add: has_result_def)
qed

lemma run_grid_combination_cached_absolute:
  assumes "is_absolute (result_path c)"
    and "get_full_result_path c = Inr base"
    and "node_at fs (joinpath base (Path_of ''result.pickle'')) = Some (File (Pickled r))"
  shows "run_grid_combination w u c fs = Inr (fs, r\<lparr>cached := True\<rparr>)"
proof -
  have "has_result fs c = Inr True"
    using assms by (simp add: has_result_absolute path_exists_def)
  moreover have "load fs c = Inr (r\<lparr>cached := True\<rparr>)"
    using assms(2,3) by (simp add: load_def read_file_def)
  ultimately show ?thesis by (simp add: run_grid_combination_def)
qed

lemma run_tasks_append:
  "run_tasks w u (xs @ ys) fs =
     (case run_tasks w u xs fs of
        Inl e \<Rightarrow> Inl e
      | Inr (fs1, rs) \<Rightarrow>
          (case run_tasks w u ys fs1 of
             Inl e \<Rightarrow> Inl e
           | Inr (fs2, rs') \<Rightarrow> Inr (fs2, rs @ rs')))"
  by (induction xs arbitrary: fs) (auto split: sum.splits)

text \<open>
  C4 (as amended). For every number of workers and every order of completion: when the tasks
  before a combination have run, the combination has no stored result and the worker raises
  on it, the whole search raises, returning no result list, and what it raises is the
  worker's exception, unchanged. The search adds nothing to it that names the combination.
\<close>

theorem perform_grid_search_fail_fast:
  assumes "(if max_workers > 1 then completion combinations else combinations) = before @ c # rest"
    and "run_tasks w u before fs = Inr (fs1, rs)"
    and "has_result fs1 c = Inr False"
    and "w u c = Inl e"
  shows "perform_grid_search completion w u combinations max_workers fs = Inl e"
proof -
  have "run_grid_combination w u c fs1 = Inl e"
    using assms(3,4) by (simp add: run_grid_combination_def)
  then have "run_tasks w u (before @ c # rest) fs = Inl e"
    using assms(2) by (simp add: run_tasks_append)
  with assms(1) show ?thesis
    by (simp add: perform_grid_search_def split: if_splits)
qed

text \<open>A search over \<open>a=1\<close> and \<open>a=2\<close> with four workers that complete in reverse order; the
  worker raises on \<open>a=1\<close> after \<open>a=2\<close> has run.\<close>

theorem perform_grid_search_fail_fast_witness:
  "perform_grid_search rev
     (\<lambda>u c. if parameters c = [\<lparr>param_name = ''a'', param_value = PyInt 1\<rparr>]
            then Inl (RuntimeError ''boom'')
            else Inr \<lparr>combination = c, backtest = 0 :: nat, cached = False\<rparr>) ()
     [\<lparr>result_path = Path True [''results''],
       parameters = [\<lparr>param_name = ''a'', param_value = PyInt 1\<rparr>]\<rparr>,
      \<lparr>result_path = Path True [''results''],
       parameters = [\<lparr>param_name = ''a'', param_value = PyInt 2\<rparr>]\<rparr>]
     4 [(Path True [''results''], Dir)]
   = Inl (RuntimeError ''boom'')"
proof -
  let ?w = "\<lambda>(u :: unit) c. if parameters c = [\<lparr>param_name = ''a'', param_value = PyInt 1\<rparr>]
            then Inl (RuntimeError ''boom'')
            else Inr \<lparr>combination = c, backtest = 0 :: nat, cached = False\<rparr>"
  let ?c1 = "\<lparr>result_path = Path True [''results''],
       parameters = [\<lparr>param_name = ''a'', param_value = PyInt 1\<rparr>]\<rparr>"
  let ?c2 = "\<lparr>result_path = Path True [''results''],
       parameters = [\<lparr>param_name = ''a'', param_value = PyInt 2\<rparr>]\<rparr>"
  let ?fs = "[(Path True [''results''], Dir)] :: nat stored filesystem"
  let ?fs1 = "[(Path True [''results'', ''a=2'', ''result.pickle''],
                 File (Pickled \<lparr>combination = ?c2, backtest = 0 :: nat, cached = False\<rparr>)),
               (Path True [''results'', ''a=2''], Dir),
               (Path True [''results''], Dir)]"
  have h1: "(if (4 :: int) > 1 then rev [?c1, ?c2] else [?c1, ?c2]) = [?c2] @ ?c1 # []"
    by simp
  have h2: "run_tasks ?w () [?c2] ?fs
            = Inr (?fs1, [\<lparr>combination = ?c2, backtest = 0 :: nat, cached = False\<rparr>])"
    by (simp add: run_eval path_eval fs_eval)
  have h3: "has_result ?fs1 ?c1 = Inr False"
    by (simp add: run_eval path_eval fs_eval)
  have h4: "?w () ?c1 = Inl (RuntimeError ''boom'')" by simp
  from perform_grid_search_fail_fast [of 4 rev "[?c1, ?c2]" "[?c2]" ?c1 "[]" ?w "()" ?fs ?fs1 _ "RuntimeError ''boom''", OF h1 h2 h3 h4]
  show ?thesis .
qed

text \<open>The claim as it was stated fails in its last part: a worker that raises the same
  exception on every combination makes the search over \<open>a=1\<close> and the search over \<open>a=2\<close>
  raise the same exception, with one worker and with four, so the exception does not tell
  which combination failed.\<close>

theorem perform_grid_search_identify_counterexample:
  "perform_grid_search rev (\<lambda>u c. Inl (RuntimeError ''boom'')) ()
     [\<lparr>result_path = Path True [''results''],
       parameters = [\<lparr>param_name = ''a'', param_value = PyInt 1\<rparr>]\<rparr>]
     1 ([(Path True [''results''], Dir)] :: nat stored filesystem)
   = Inl (RuntimeError ''boom'')
   \<and> perform_grid_search rev (\<lambda>u c. Inl (RuntimeError ''boom'')) ()
     [\<lparr>result_path = Path True [''results''],
       parameters = [\<lparr>param_name = ''a'', param_value = PyInt 2\<rparr>]\<rparr>]
     1 ([(Path True [''results''], Dir)] :: nat stored filesystem)
   = Inl (RuntimeError ''boom'')
   \<and> perform_grid_search rev (\<lambda>u c. Inl (RuntimeError ''boom'')) ()
     [\<lparr>result_path = Path True [''results''],
       parameters = [\<lparr>param_name = ''a'', param_value = PyInt 1\<rparr>]\<rparr>]
     4 ([(Path True [''results''], Dir)] :: nat stored filesystem)
   = Inl (RuntimeError ''boom'')
   \<and> perform_grid_search rev (\<lambda>u c. Inl (RuntimeError ''boom'')) ()
     [\<lparr>result_path = Path True [''results''],
       parameters = [\<lparr>param_name = ''a'', param_value = PyInt 2\<rparr>]\<rparr>]
     4 ([(Path True [''results''], Dir)] :: nat stored filesystem)
   = Inl (RuntimeError ''boom'')
   \<and> \<not> GridCombination_eq
        \<lparr>result_path = Path True [''results''],
         parameters = [\<lparr>param_name = ''a'', param_value = PyInt 1\<rparr>]\<rparr>
        \<lparr>result_path = Path True [''results''],
         parameters = [\<lparr>param_name = ''a'', param_value = PyInt 2\<rparr>]\<rparr>"
  by (simp add: perform_grid_search_def run_eval path_eval fs_eval GridCombination_eq_def
      GridParameter_eq_def py_eq_def)

section \<open>Properties of the indicator engine\<close>

lemmas engine_eval = calculate_and_load_indicators_def all_combinations_def
  IndicatorSet_add_def define_indicator_def load_indicators_def storage_has_def
  storage_load_def storage_save_def get_indicator_path_def render_path_fragment_def
  path_safe_def Path_of_def joinpath_def str_int_def digits10.simps Let_def

lemmas fixture_eval = weth_usdc_def wbtc_usdc_def weth_usdc_other_exchange_def
  strategy_universe_def two_exchange_universe_def shifted_close_def create_shifted_def
  shifted_definition_def cache_storage_def

text \<open>
  C8. Constructing an indicator definition with a parameter name the function does not accept
  raises the signature mismatch, which names exactly the parameters that are not accepted,
  and adding it to an indicator set leaves the set as it was; with every name accepted the
  definition is constructed and registered.
\<close>

theorem define_indicator_signature_check:
  "(set (map fst params) \<subseteq> set (accepted_arguments func) \<longrightarrow>
      define_indicator nm func params
        = Inr \<lparr>ind_name = nm, ind_func = func, ind_parameters = params\<rparr>
      \<and> IndicatorSet_add indicators nm func params
        = (Inr (), registered indicators nm
                     \<lparr>ind_name = nm, ind_func = func, ind_parameters = params\<rparr>))
   \<and> (\<not> set (map fst params) \<subseteq> set (accepted_arguments func) \<longrightarrow>
      (\<exists>offending.
         define_indicator nm func params = Inl (IndicatorFunctionSignatureMismatch offending)
         \<and> offending \<noteq> []
         \<and> set offending = {k \<in> set (map fst params). k \<notin> set (accepted_arguments func)}
         \<and> IndicatorSet_add indicators nm func params
             = (Inl (IndicatorFunctionSignatureMismatch offending), indicators)))"
proof -
  let ?off = "filter (\<lambda>k. k \<notin> set (accepted_arguments func)) (map fst params)"
  have a: "?off = [] \<longleftrightarrow> set (map fst params) \<subseteq> set (accepted_arguments func)"
    by (auto simp: filter_empty_conv)
  have b: "set ?off = {k \<in> set (map fst params). k \<notin> set (accepted_arguments func)}"
    by auto
  show ?thesis
  proof (cases "set (map fst params) \<subseteq> set (accepted_arguments func)")
    case True
    with a have "?off = []" by simp
    then have "define_indicator nm func params
        = Inr \<lparr>ind_name = nm, ind_func = func, ind_parameters = params\<rparr>"
      by (simp add: define_indicator_def)
    with True show ?thesis by (simp add: IndicatorSet_add_def)
  next
    case False
    with a have ne: "?off \<noteq> []" by simp
    then have d: "define_indicator nm func params = Inl (IndicatorFunctionSignatureMismatch ?off)"
      by (simp add: define_indicator_def)
    then have "IndicatorSet_add indicators nm func params
             = (Inl (IndicatorFunctionSignatureMismatch ?off), indicators)"
      by (simp add: IndicatorSet_add_def)
    with False d ne b show ?thesis by blast
  qed
qed

text \<open>The test \<^verbatim>\<open>test_bad_indicator_parameters\<close>: \<^verbatim>\<open>sma\<close> does not take \<^verbatim>\<open>lengthx\<close>; it
  takes \<^verbatim>\<open>length\<close>.\<close>

theorem define_indicator_signature_check_witness:
  "define_indicator ''sma''
      \<lparr>accepted_arguments = [''close'', ''length'', ''talib'', ''offset''],
       transform = (\<lambda>c ps. Inr (c :: nat) :: exn + nat)\<rparr>
      [(''lengthx'', PyInt 21)]
     = Inl (IndicatorFunctionSignatureMismatch [''lengthx''])
   \<and> IndicatorSet_add []  ''sma''
      \<lparr>accepted_arguments = [''close'', ''length'', ''talib'', ''offset''],
       transform = (\<lambda>c ps. Inr (c :: nat) :: exn + nat)\<rparr>
      [(''lengthx'', PyInt 21)]
     = (Inl (IndicatorFunctionSignatureMismatch [''lengthx'']), [])
   \<and> define_indicator ''sma''
      \<lparr>accepted_arguments = [''close'', ''length'', ''talib'', ''offset''],
       transform = (\<lambda>c ps. Inr (c :: nat) :: exn + nat)\<rparr>
      [(''length'', PyInt 21)]
     = Inr \<lparr>ind_name = ''sma'',
            ind_func = \<lparr>accepted_arguments = [''close'', ''length'', ''talib'', ''offset''],
                        transform = (\<lambda>c ps. Inr (c :: nat) :: exn + nat)\<rparr>,
            ind_parameters = [(''length'', PyInt 21)]\<rparr>"
proof -
  let ?f = "\<lparr>accepted_arguments = [''close'', ''length'', ''talib'', ''offset''],
       transform = (\<lambda>c ps. Inr (c :: nat) :: exn + nat)\<rparr>"
  have bad: "\<not> set (map fst [(''lengthx'', PyInt 21)]) \<subseteq> set (accepted_arguments ?f)"
    by simp
  have good: "set (map fst [(''length'', PyInt 21)]) \<subseteq> set (accepted_arguments ?f)"
    by simp
  from define_indicator_signature_check [of "[(''lengthx'', PyInt 21)]" ?f "''sma''" "[]"] bad
  obtain offending where o:
    "define_indicator ''sma'' ?f [(''lengthx'', PyInt 21)]
       = Inl (IndicatorFunctionSignatureMismatch offending)"
    "IndicatorSet_add [] ''sma'' ?f [(''lengthx'', PyInt 21)]
       = (Inl (IndicatorFunctionSignatureMismatch offending), [])"
    by blast
  have "define_indicator ''sma'' ?f [(''lengthx'', PyInt 21)]
       = Inl (IndicatorFunctionSignatureMismatch [''lengthx''])"
    by (simp add: define_indicator_def)
  with o have "offending = [''lengthx'']" by simp
  with o have 1: "define_indicator ''sma'' ?f [(''lengthx'', PyInt 21)]
       = Inl (IndicatorFunctionSignatureMismatch [''lengthx''])"
    and 2: "IndicatorSet_add [] ''sma'' ?f [(''lengthx'', PyInt 21)]
       = (Inl (IndicatorFunctionSignatureMismatch [''lengthx'']), [])"
    by simp_all
  from define_indicator_signature_check [of "[(''length'', PyInt 21)]" ?f "''sma''" "[]"] good
  have 3: "define_indicator ''sma'' ?f [(''length'', PyInt 21)]
     = Inr \<lparr>ind_name = ''sma'', ind_func = ?f, ind_parameters = [(''length'', PyInt 21)]\<rparr>"
    by blast
  from 1 2 3 show ?thesis by (intro conjI)
qed

subsection \<open>Auxiliary facts about safe text and paths\<close>

lemma path_safe_append: "path_safe (a @ b) \<longleftrightarrow> path_safe a \<and> path_safe b"
  by (simp add: path_safe_def)

lemma path_safe_join_with:
  "path_safe sep \<Longrightarrow> \<forall>x\<in>set xs. path_safe x \<Longrightarrow> path_safe (join_with sep xs)"
  by (induction sep xs rule: join_with.induct) (simp_all add: path_safe_append path_safe_def)

lemma split_sep_safe: "path_safe s \<Longrightarrow> split_sep s = [s]"
  by (induction s) (simp_all add: path_safe_def)

lemma Path_of_single:
  assumes "path_safe s" and "s \<noteq> []" and "s \<noteq> ''.''"
  shows "Path_of s = Path False [s]"
proof -
  from assms(1,2) have "take 1 s \<noteq> ''/''"
    by (cases s) (simp_all add: path_safe_def)
  with assms show ?thesis by (simp add: Path_of_def split_sep_safe)
qed

text \<open>
  C9 (as amended). For every indicator definition whose name, parameter names and rendered
  parameter values hold no character that is unsafe in a path, the path fragment is the
  name, then in parentheses the parameters as \<open>k=v\<close> in their insertion order, separated by
  commas. Where moreover the pair's tickers and the universe key hold no such character (the
  key being neither empty nor a dot), the artifact path of the definition and the pair is
  the storage root, then the universe key, then the file named by the fragment, the base
  and quote tickers and the extension: a function of its arguments alone, reading no file
  system.
\<close>

theorem render_path_fragment_safe_naming:
  assumes "path_safe (ind_name d)"
    and "\<forall>(k, v)\<in>set (ind_parameters d). path_safe k \<and> path_safe (format_value v)"
  shows "render_path_fragment d =
           Inr (ind_name d @ ''('' @
                join_with '','' (map (\<lambda>(k, v). k @ ''='' @ format_value v) (ind_parameters d))
                @ '')'')
       \<and> (path_safe (base_ticker pair) \<and> path_safe (quote_ticker pair)
            \<and> path_safe (universe_key storage) \<and> universe_key storage \<noteq> []
            \<and> universe_key storage \<noteq> ''.'' \<longrightarrow>
          get_indicator_path storage d pair =
            Inr (Path (is_absolute (storage_path storage))
                   (components (storage_path storage) @
                    [universe_key storage,
                     ind_name d @ ''('' @
                     join_with '',''
                       (map (\<lambda>(k, v). k @ ''='' @ format_value v) (ind_parameters d))
                     @ '')'' @ ''-'' @ base_ticker pair @ ''-'' @ quote_ticker pair
                     @ ''.parquet''])))"
proof -
  let ?items = "map (\<lambda>(k, v). k @ ''='' @ format_value v) (ind_parameters d)"
  let ?encoded = "ind_name d @ ''('' @ join_with '','' ?items @ '')''"
  have "\<forall>x\<in>set ?items. path_safe x"
    using assms(2) by (auto simp: path_safe_append path_safe_def)
  then have "path_safe (join_with '','' ?items)"
    by (intro path_safe_join_with) (simp_all add: path_safe_def)
  with assms(1) have safe: "path_safe ?encoded"
    by (simp add: path_safe_append) (simp add: path_safe_def)
  then have r: "render_path_fragment d = Inr ?encoded"
    by (simp add: render_path_fragment_def Let_def)
  have "get_indicator_path storage d pair =
            Inr (Path (is_absolute (storage_path storage))
                   (components (storage_path storage) @
                    [universe_key storage,
                     ?encoded @ ''-'' @ base_ticker pair @ ''-'' @ quote_ticker pair
                     @ ''.parquet'']))"
    if p: "path_safe (base_ticker pair)" "path_safe (quote_ticker pair)"
      and u: "path_safe (universe_key storage)" "universe_key storage \<noteq> []"
        "universe_key storage \<noteq> ''.''"
  proof -
    let ?file = "?encoded @ ''-'' @ base_ticker pair @ ''-'' @ quote_ticker pair @ ''.parquet''"
    have fs: "path_safe ?file"
      using safe p by (simp add: path_safe_append) (simp add: path_safe_def)
    have "length ?file \<ge> 2" by simp
    then have fne: "?file \<noteq> []" "?file \<noteq> ''.''" by auto
    have pu: "Path_of (universe_key storage) = Path False [universe_key storage]"
      using u by (rule Path_of_single)
    have pf: "Path_of ?file = Path False [?file]"
      using fs fne by (rule Path_of_single)
    show ?thesis
      unfolding get_indicator_path_def r sum.case pu pf by (simp add: joinpath_def)
  qed
  with r show ?thesis by (simp only: append_assoc) blast
qed

text \<open>The definition of the specification's example, \<^verbatim>\<open>sma\<close> with
  \<^verbatim>\<open>{"length": 21, "offset": 1}\<close>, renders \<^verbatim>\<open>sma(length=21,offset=1)\<close>, and for WETH-USDC
  its artifact is the path the test \<^verbatim>\<open>test_setup_up_indicator_storage_two_parameters\<close>
  expects.\<close>

theorem render_path_fragment_safe_naming_witness:
  "render_path_fragment
      \<lparr>ind_name = ''sma'', ind_func = shifted_close,
       ind_parameters = [(''length'', PyInt 21), (''offset'', PyInt 1)]\<rparr>
     = Inr ''sma(length=21,offset=1)''
   \<and> get_indicator_path
      \<lparr>storage_path = Path_of ''/tmp/pytest'',
       universe_key = ''ethereum,1d,WETH-USDC-WBTC-USDC,2021-06-01-2021-12-31''\<rparr>
      \<lparr>ind_name = ''sma'', ind_func = shifted_close,
       ind_parameters = [(''length'', PyInt 21), (''offset'', PyInt 1)]\<rparr>
      weth_usdc
     = Inr (Path True [''tmp'', ''pytest'',
                       ''ethereum,1d,WETH-USDC-WBTC-USDC,2021-06-01-2021-12-31'',
                       ''sma(length=21,offset=1)-WETH-USDC.parquet''])"
proof -
  let ?d = "\<lparr>ind_name = ''sma'', ind_func = shifted_close,
       ind_parameters = [(''length'', PyInt 21), (''offset'', PyInt 1)]\<rparr>"
  let ?st = "\<lparr>storage_path = Path_of ''/tmp/pytest'',
       universe_key = ''ethereum,1d,WETH-USDC-WBTC-USDC,2021-06-01-2021-12-31''\<rparr>"
  have h1: "path_safe (ind_name ?d)" by (simp add: path_safe_def)
  have h2: "\<forall>(k, v)\<in>set (ind_parameters ?d). path_safe k \<and> path_safe (format_value v)"
    by (simp add: path_safe_def str_int_def digits10.simps)
  have h3: "path_safe (base_ticker weth_usdc) \<and> path_safe (quote_ticker weth_usdc)
            \<and> path_safe (universe_key ?st) \<and> universe_key ?st \<noteq> []
            \<and> universe_key ?st \<noteq> ''.''"
    by (simp add: path_safe_def weth_usdc_def)
  from render_path_fragment_safe_naming [OF h1 h2, of weth_usdc ?st] h3
  show ?thesis
    by (simp add: str_int_def digits10.simps weth_usdc_def Path_of_def)
qed

text \<open>The claim as it was stated fails for a definition whose name holds a separator, which
  is rejected. The shape of the artifact path fails for a pair whose ticker holds one (the
  file name falls into two components), for a universe key that starts with one (the storage
  root is lost) and for the empty universe key (its component is missing).\<close>

theorem render_path_fragment_unsafe_counterexample:
  "render_path_fragment
      \<lparr>ind_name = ''a/b'', ind_func = shifted_close, ind_parameters = []\<rparr>
     = Inl ValueError
   \<and> get_indicator_path cache_storage (shifted_definition 2)
        \<lparr>base_ticker = ''W/ETH'', quote_ticker = ''USDC'', internal_id = 1\<rparr>
     = Inr (Path True [''cache'', ''u'', ''shifted(length=2)-W'', ''ETH-USDC.parquet''])
   \<and> get_indicator_path \<lparr>storage_path = Path_of ''/cache'', universe_key = ''/u''\<rparr>
        (shifted_definition 2) weth_usdc
     = Inr (Path True [''u'', ''shifted(length=2)-WETH-USDC.parquet''])
   \<and> get_indicator_path \<lparr>storage_path = Path_of ''/cache'', universe_key = []\<rparr>
        (shifted_definition 2) weth_usdc
     = Inr (Path True [''cache'', ''shifted(length=2)-WETH-USDC.parquet''])"
  by (simp add: engine_eval fixture_eval)

subsection \<open>Auxiliary facts about the store and the result lists\<close>

lemma partition_cached_paths:
  "partition_cached st store ks = Inr (cs, ns) \<Longrightarrow> k \<in> set ks \<Longrightarrow>
   \<exists>p. get_indicator_path st (snd k) (fst k) = Inr p"
proof (induction ks arbitrary: cs ns)
  case Nil
  then show ?case by simp
next
  case (Cons k0 ks)
  from Cons.prems(1) obtain b cs' ns' where
    h: "storage_has st store k0 = Inr b"
    and rest: "partition_cached st store ks = Inr (cs', ns')"
    by (auto split: sum.splits)
  from h have p0: "\<exists>p. get_indicator_path st (snd k0) (fst k0) = Inr p"
    by (auto simp: storage_has_def split: sum.splits)
  show ?case
  proof (cases "k = k0")
    case True
    with p0 show ?thesis by simp
  next
    case False
    with Cons.prems(2) have "k \<in> set ks" by simp
    from Cons.IH [OF rest this] show ?thesis .
  qed
qed

lemma partition_cached_resolved:
  assumes "\<And>k. k \<in> set ks \<Longrightarrow> get_indicator_path st (snd k) (fst k) = Inr (P k)"
  shows "partition_cached st store ks =
           Inr (filter (\<lambda>k. map_of store (P k) \<noteq> None) ks,
                filter (\<lambda>k. map_of store (P k) = None) ks)"
  using assms
proof (induction ks)
  case Nil
  show ?case by simp
next
  case (Cons k0 ks)
  have h: "storage_has st store k0 = Inr (map_of store (P k0) \<noteq> None)"
    using Cons.prems [of k0] by (simp add: storage_has_def)
  have "partition_cached st store ks =
           Inr (filter (\<lambda>k. map_of store (P k) \<noteq> None) ks,
                filter (\<lambda>k. map_of store (P k) = None) ks)"
    by (rule Cons.IH) (simp add: Cons.prems)
  with h show ?case by simp
qed

lemma calculate_indicators_frame:
  assumes "\<And>k. k \<in> set ks \<Longrightarrow> get_indicator_path st (snd k) (fst k) = Inr (P k)"
    and "calculate_indicators u st ks store = Inr (store', rs)"
    and "p \<notin> P ` set ks"
  shows "map_of store' p = map_of store p"
  using assms
proof (induction ks arbitrary: store store' rs)
  case Nil
  then show ?case by simp
next
  case (Cons k ks)
  have pk: "get_indicator_path st (snd k) (fst k) = Inr (P k)"
    using Cons.prems(1) [of k] by simp
  from Cons.prems(2) obtain d rs1 where
    d: "transform (ind_func (snd k)) (candles u (fst k)) (ind_parameters (snd k)) = Inr d"
    and rest: "calculate_indicators u st ks ((P k, Artifact d) # store) = Inr (store', rs1)"
    by (auto simp: storage_save_def pk split: sum.splits)
  from Cons.prems(3) have notin: "p \<notin> P ` set ks" and ne: "p \<noteq> P k" by auto
  have "map_of store' p = map_of ((P k, Artifact d) # store) p"
    by (rule Cons.IH [OF _ rest notin]) (simp add: Cons.prems(1))
  with ne show ?case by simp
qed

lemma calculate_indicators_keeps_artifacts:
  assumes "\<And>k. k \<in> set ks \<Longrightarrow> get_indicator_path st (snd k) (fst k) = Inr (P k)"
    and "calculate_indicators u st ks store = Inr (store', rs)"
    and "\<exists>d. map_of store p = Some (Artifact d)"
  shows "\<exists>d. map_of store' p = Some (Artifact d)"
  using assms
proof (induction ks arbitrary: store store' rs)
  case Nil
  then show ?case by simp
next
  case (Cons k ks)
  have pk: "get_indicator_path st (snd k) (fst k) = Inr (P k)"
    using Cons.prems(1) [of k] by simp
  from Cons.prems(2) obtain d rs1 where
    rest: "calculate_indicators u st ks ((P k, Artifact d) # store) = Inr (store', rs1)"
    by (auto simp: storage_save_def pk split: sum.splits)
  from Cons.prems(3) have "\<exists>d'. map_of ((P k, Artifact d) # store) p = Some (Artifact d')"
    by simp
  with Cons.IH [OF _ rest] Cons.prems(1) show ?case by simp
qed

lemma calculate_indicators_stored:
  assumes "\<And>k. k \<in> set ks \<Longrightarrow> get_indicator_path st (snd k) (fst k) = Inr (P k)"
    and "calculate_indicators u st ks store = Inr (store', rs)"
    and "k \<in> set ks"
  shows "\<exists>d. map_of store' (P k) = Some (Artifact d)"
  using assms
proof (induction ks arbitrary: store store' rs)
  case Nil
  then show ?case by simp
next
  case (Cons k0 ks)
  have pk: "get_indicator_path st (snd k0) (fst k0) = Inr (P k0)"
    using Cons.prems(1) [of k0] by simp
  from Cons.prems(2) obtain d rs1 where
    rest: "calculate_indicators u st ks ((P k0, Artifact d) # store) = Inr (store', rs1)"
    by (auto simp: storage_save_def pk split: sum.splits)
  have paths: "\<And>k. k \<in> set ks \<Longrightarrow> get_indicator_path st (snd k) (fst k) = Inr (P k)"
    by (simp add: Cons.prems(1))
  show ?case
  proof (cases "k \<in> set ks")
    case True
    from Cons.IH [OF paths rest True] show ?thesis .
  next
    case False
    with Cons.prems(3) have "k = k0" by simp
    moreover have "\<exists>d'. map_of ((P k0, Artifact d) # store) (P k0) = Some (Artifact d')"
      by simp
    ultimately show ?thesis
      using calculate_indicators_keeps_artifacts [OF paths rest, of "P k0"] by simp
  qed
qed

lemma calculate_indicators_saved:
  assumes "\<And>k. k \<in> set ks \<Longrightarrow> get_indicator_path st (snd k) (fst k) = Inr (P k)"
    and "calculate_indicators u st ks store = Inr (store', rs)"
    and "k \<in> set ks"
    and "\<forall>k'\<in>set ks. P k' = P k \<longrightarrow> k' = k"
  shows "\<exists>d. transform (ind_func (snd k)) (candles u (fst k)) (ind_parameters (snd k)) = Inr d
           \<and> map_of store' (P k) = Some (Artifact d)"
  using assms
proof (induction ks arbitrary: store store' rs)
  case Nil
  then show ?case by simp
next
  case (Cons k0 ks)
  have pk: "get_indicator_path st (snd k0) (fst k0) = Inr (P k0)"
    using Cons.prems(1) [of k0] by simp
  from Cons.prems(2) obtain d0 rs1 where
    d0: "transform (ind_func (snd k0)) (candles u (fst k0)) (ind_parameters (snd k0)) = Inr d0"
    and rest: "calculate_indicators u st ks ((P k0, Artifact d0) # store) = Inr (store', rs1)"
    by (auto simp: storage_save_def pk split: sum.splits)
  have paths: "\<And>k. k \<in> set ks \<Longrightarrow> get_indicator_path st (snd k) (fst k) = Inr (P k)"
    by (simp add: Cons.prems(1))
  from Cons.prems(4) have alone: "\<forall>k'\<in>set ks. P k' = P k \<longrightarrow> k' = k" by simp
  show ?case
  proof (cases "k \<in> set ks")
    case True
    from Cons.IH [OF paths rest True alone] show ?thesis .
  next
    case False
    with Cons.prems(3) have k: "k = k0" by simp
    have "P k0 \<notin> P ` set ks"
    proof
      assume "P k0 \<in> P ` set ks"
      then obtain k' where k': "k' \<in> set ks" "P k0 = P k'" by (rule imageE)
      with alone k have "k' = k" by simp
      with k' False show False by simp
    qed
    from calculate_indicators_frame [OF paths rest this]
    have "map_of store' (P k0) = Some (Artifact d0)" by simp
    with d0 k show ?thesis by simp
  qed
qed

lemma calculate_indicators_results:
  "calculate_indicators u st ks store = Inr (store', rs) \<Longrightarrow>
   map (\<lambda>r. (result_pair r, result_definition r)) rs = ks
   \<and> (\<forall>r\<in>set rs.
        transform (ind_func (result_definition r)) (candles u (result_pair r))
          (ind_parameters (result_definition r)) = Inr (result_data r))"
proof (induction ks arbitrary: store store' rs)
  case Nil
  then show ?case by simp
next
  case (Cons k ks)
  from Cons.prems obtain d store1 rs1 where
    d: "transform (ind_func (snd k)) (candles u (fst k)) (ind_parameters (snd k)) = Inr d"
    and rest: "calculate_indicators u st ks store1 = Inr (store', rs1)"
    and rs: "rs = \<lparr>result_pair = fst k, result_definition = snd k,
                    result_data = d, result_cached = False\<rparr> # rs1"
    by (auto split: sum.splits)
  from Cons.IH [OF rest] d rs show ?case by simp
qed

lemma load_indicators_results:
  assumes "\<And>k. k \<in> set ks \<Longrightarrow> get_indicator_path st (snd k) (fst k) = Inr (P k)"
    and "load_indicators st store ks = Inr rs"
  shows "map (\<lambda>r. (result_pair r, result_definition r)) rs = ks
   \<and> (\<forall>r\<in>set rs. map_of store (P (result_pair r, result_definition r))
                     = Some (Artifact (result_data r)))"
  using assms unfolding load_indicators_def
proof (induction ks arbitrary: rs)
  case Nil
  then show ?case by simp
next
  case (Cons k ks)
  have pk: "get_indicator_path st (snd k) (fst k) = Inr (P k)"
    using Cons.prems(1) [of k] by simp
  from Cons.prems(2) obtain d rs1 where
    d: "storage_load st store k = Inr d"
    and rest: "map_err (\<lambda>key. case storage_load st store key of
                      Inl e \<Rightarrow> Inl e
                    | Inr d \<Rightarrow> Inr \<lparr>result_pair = fst key, result_definition = snd key,
                                     result_data = d, result_cached = True\<rparr>) ks = Inr rs1"
    and rs: "rs = \<lparr>result_pair = fst k, result_definition = snd k,
                    result_data = d, result_cached = True\<rparr> # rs1"
    by (auto split: sum.splits)
  from d have "map_of store (P k) = Some (Artifact d)"
    by (auto simp: storage_load_def pk split: option.splits artifact.splits)
  moreover have "map (\<lambda>r. (result_pair r, result_definition r)) rs1 = ks
   \<and> (\<forall>r\<in>set rs1. map_of store (P (result_pair r, result_definition r))
                     = Some (Artifact (result_data r)))"
    by (rule Cons.IH [OF _ rest]) (simp add: Cons.prems(1))
  ultimately show ?case using rs by simp
qed

lemma load_indicators_all:
  assumes "\<And>k. k \<in> set ks \<Longrightarrow> get_indicator_path st (snd k) (fst k) = Inr (P k)"
    and "\<And>k. k \<in> set ks \<Longrightarrow> map_of store (P k) = Some (Artifact (g k))"
  shows "load_indicators st store ks =
     Inr (map (\<lambda>k. \<lparr>result_pair = fst k, result_definition = snd k,
                     result_data = g k, result_cached = True\<rparr>) ks)"
  unfolding load_indicators_def
  by (rule map_err_all_Inr) (simp add: storage_load_def assms)

lemma result_of_member:
  "key \<in> set (map (\<lambda>r. (result_pair r, result_definition r)) rs) \<Longrightarrow>
   \<exists>r. result_of rs key = Some r \<and> r \<in> set rs"
  by (induction rs) (auto simp: result_of_def)

lemma result_of_append_left:
  "result_of rs key = Some r \<Longrightarrow> result_of (rs @ rs') key = Some r"
  by (induction rs) (auto simp: result_of_def)

lemma result_of_append_right:
  "key \<notin> set (map (\<lambda>r. (result_pair r, result_definition r)) rs) \<Longrightarrow>
   result_of (rs @ rs') key = result_of rs' key"
  by (induction rs) (auto simp: result_of_def)

lemma result_of_map:
  "key \<in> set ks \<Longrightarrow>
   result_of (map (\<lambda>k. \<lparr>result_pair = fst k, result_definition = snd k,
                          result_data = g k, result_cached = True\<rparr>) ks) key
   = Some \<lparr>result_pair = fst key, result_definition = snd key,
           result_data = g key, result_cached = True\<rparr>"
  by (induction ks) (auto simp: result_of_def)

text \<open>
  What the engine does keep. If a call returns, a second call with the same arguments on the
  store the first one left returns too, leaves the store as it is and gives a result for
  every key (every pair with every registered indicator), each with the cached flag set; and
  for every key whose artifact path no other key of the call has, the data of the second
  call is the data the first call returned.
\<close>

lemma calculate_and_load_indicators_second_call:
  fixes universe :: "'c TradingStrategyUniverse"
    and indicators :: "('c, 'd) IndicatorSet"
  assumes mat: "materialise [] (create_indicators params) = Inr indicators"
    and first: "calculate_and_load_indicators universe storage create_indicators params store
                = Inr (store1, first)"
  shows "\<exists>second.
           calculate_and_load_indicators universe storage create_indicators params store1
             = Inr (store1, second)
         \<and> map (\<lambda>r. (result_pair r, result_definition r)) second
             = all_combinations universe indicators
         \<and> (\<forall>r\<in>set second. result_cached r)
         \<and> (\<forall>key\<in>set (all_combinations universe indicators).
               \<exists>a b. result_of first key = Some a \<and> result_of second key = Some b
                 \<and> ((\<forall>k'\<in>set (all_combinations universe indicators).
                        get_indicator_path storage (snd k') (fst k')
                          = get_indicator_path storage (snd key) (fst key) \<longrightarrow> k' = key)
                      \<longrightarrow> result_data b = result_data a))"
proof -
  let ?path = "\<lambda>key :: TradingPairIdentifier \<times> ('c, 'd) IndicatorDefinition.
                 get_indicator_path storage (snd key) (fst key)"
  let ?keys = "all_combinations universe indicators"
  let ?key_of = "\<lambda>r. (result_pair r, result_definition r)"
  define P where "P key = projr (?path key)" for key
  from first mat obtain cached_keys needed_keys loaded calculated where
    pt: "partition_cached storage store ?keys = Inr (cached_keys, needed_keys)"
    and ld: "load_indicators storage store cached_keys = Inr loaded"
    and cl: "calculate_indicators universe storage needed_keys store = Inr (store1, calculated)"
    and f: "first = loaded @ calculated"
    by (auto simp: calculate_and_load_indicators_def split: sum.splits)
  have paths: "?path k = Inr (P k)" if "k \<in> set ?keys" for k
    using partition_cached_paths [OF pt that] by (auto simp: P_def)
  from partition_cached_resolved [of ?keys storage P store, OF paths] pt
  have ck: "cached_keys = filter (\<lambda>k. map_of store (P k) \<noteq> None) ?keys"
    and nk: "needed_keys = filter (\<lambda>k. map_of store (P k) = None) ?keys"
    by simp_all
  have cpaths: "\<And>k. k \<in> set cached_keys \<Longrightarrow> ?path k = Inr (P k)"
    by (simp add: ck paths)
  have npaths: "\<And>k. k \<in> set needed_keys \<Longrightarrow> ?path k = Inr (P k)"
    by (simp add: nk paths)
  from load_indicators_results [of cached_keys storage P store loaded, OF cpaths ld]
  have L1: "map ?key_of loaded = cached_keys"
    and L2: "\<And>r. r \<in> set loaded \<Longrightarrow>
               map_of store (P (result_pair r, result_definition r))
                 = Some (Artifact (result_data r))"
    by blast+
  from calculate_indicators_results [OF cl]
  have C1: "map ?key_of calculated = needed_keys"
    and C2: "\<And>r. r \<in> set calculated \<Longrightarrow>
               transform (ind_func (result_definition r)) (candles universe (result_pair r))
                 (ind_parameters (result_definition r)) = Inr (result_data r)"
    by blast+
  have K: "\<exists>a d. result_of first key = Some a
               \<and> map_of store1 (P key) = Some (Artifact d)
               \<and> ((\<forall>k'\<in>set ?keys. P k' = P key \<longrightarrow> k' = key) \<longrightarrow> result_data a = d)"
    if key: "key \<in> set ?keys" for key
  proof (cases "map_of store (P key) \<noteq> None")
    case True
    with key have "key \<in> set cached_keys" by (simp add: ck)
    with L1 have "key \<in> set (map ?key_of loaded)" by simp
    from result_of_member [OF this]
    obtain a where a: "result_of loaded key = Some a" "a \<in> set loaded" by blast
    from a(1) have ka: "(result_pair a, result_definition a) = key"
      by (auto simp: result_of_def find_Some_iff)
    from L2 [OF a(2)] ka have st: "map_of store (P key) = Some (Artifact (result_data a))"
      by simp
    have "P key \<notin> P ` set needed_keys"
    proof
      assume "P key \<in> P ` set needed_keys"
      then obtain k' where k': "k' \<in> set needed_keys" "P key = P k'" by (rule imageE)
      from k'(1) have "map_of store (P k') = None" by (simp add: nk)
      with True k'(2) show False by simp
    qed
    from calculate_indicators_frame [of needed_keys storage P universe store store1 calculated,
        OF npaths cl this] st
    have "map_of store1 (P key) = Some (Artifact (result_data a))" by simp
    moreover from a(1) have "result_of first key = Some a"
      unfolding f by (rule result_of_append_left)
    ultimately show ?thesis by blast
  next
    case False
    with key have kn: "key \<in> set needed_keys" by (simp add: nk)
    from calculate_indicators_stored [of needed_keys storage P universe store store1 calculated,
        OF npaths cl kn]
    obtain d where sd: "map_of store1 (P key) = Some (Artifact d)" by blast
    from kn C1 have "key \<in> set (map ?key_of calculated)" by simp
    from result_of_member [OF this]
    obtain a where a: "result_of calculated key = Some a" "a \<in> set calculated" by blast
    from a(1) have ka: "result_pair a = fst key" "result_definition a = snd key"
      by (auto simp: result_of_def find_Some_iff)
    from False have "key \<notin> set cached_keys" by (simp add: ck)
    with L1 have "key \<notin> set (map ?key_of loaded)" by simp
    then have "result_of first key = result_of calculated key"
      unfolding f by (rule result_of_append_right)
    with a(1) have fa: "result_of first key = Some a" by simp
    have "result_data a = d" if alone: "\<forall>k'\<in>set ?keys. P k' = P key \<longrightarrow> k' = key"
    proof -
      from alone have "\<forall>k'\<in>set needed_keys. P k' = P key \<longrightarrow> k' = key"
        by (simp add: nk)
      from calculate_indicators_saved [of needed_keys storage P universe store store1
          calculated key, OF npaths cl kn this]
      obtain d' where
        d': "transform (ind_func (snd key)) (candles universe (fst key))
               (ind_parameters (snd key)) = Inr d'"
        and sd': "map_of store1 (P key) = Some (Artifact d')" by blast
      from C2 [OF a(2)] ka d' have "result_data a = d'" by simp
      with sd sd' show ?thesis by simp
    qed
    with fa sd show ?thesis by blast
  qed
  define g where "g key = (case map_of store1 (P key) of Some (Artifact d) \<Rightarrow> d)" for key
  have G: "map_of store1 (P k) = Some (Artifact (g k))" if "k \<in> set ?keys" for k
    using K [OF that] by (auto simp: g_def)
  have fc: "filter (\<lambda>k. map_of store1 (P k) \<noteq> None) ?keys = ?keys"
    using G by (simp add: filter_id_conv)
  have fn: "filter (\<lambda>k. map_of store1 (P k) = None) ?keys = []"
    using G by (simp add: filter_empty_conv)
  from partition_cached_resolved [of ?keys storage P store1, OF paths]
  have pt2: "partition_cached storage store1 ?keys = Inr (?keys, [])"
    by (simp only: fc fn)
  let ?second = "map (\<lambda>k. \<lparr>result_pair = fst k, result_definition = snd k,
                              result_data = g k, result_cached = True\<rparr>) ?keys"
  have ld2: "load_indicators storage store1 ?keys = Inr ?second"
    by (rule load_indicators_all [of ?keys storage P store1 g, OF paths G])
  have sec: "calculate_and_load_indicators universe storage create_indicators params store1
             = Inr (store1, ?second)"
    by (simp add: calculate_and_load_indicators_def mat pt2 ld2)
  have keys2: "map ?key_of ?second = ?keys"
    by (simp add: o_def)
  have cached2: "\<forall>r\<in>set ?second. result_cached r" by simp
  have same: "\<forall>key\<in>set ?keys.
               \<exists>a b. result_of first key = Some a \<and> result_of ?second key = Some b
                 \<and> ((\<forall>k'\<in>set ?keys. ?path k' = ?path key \<longrightarrow> k' = key)
                      \<longrightarrow> result_data b = result_data a)"
  proof
    fix key assume key: "key \<in> set ?keys"
    from K [OF key] obtain a d where a: "result_of first key = Some a"
      and d: "map_of store1 (P key) = Some (Artifact d)"
      and da: "(\<forall>k'\<in>set ?keys. P k' = P key \<longrightarrow> k' = key) \<longrightarrow> result_data a = d"
      by blast
    from d have gd: "g key = d" by (simp add: g_def)
    have imp: "(\<forall>k'\<in>set ?keys. ?path k' = ?path key \<longrightarrow> k' = key)
               \<longrightarrow> (\<forall>k'\<in>set ?keys. P k' = P key \<longrightarrow> k' = key)"
      using paths key by auto
    let ?b = "\<lparr>result_pair = fst key, result_definition = snd key,
               result_data = g key, result_cached = True\<rparr>"
    have b: "result_of ?second key = Some ?b" using key by (rule result_of_map)
    have "(\<forall>k'\<in>set ?keys. ?path k' = ?path key \<longrightarrow> k' = key)
          \<longrightarrow> result_data ?b = result_data a"
      using imp da gd by simp
    with a b show "\<exists>a b. result_of first key = Some a \<and> result_of ?second key = Some b
                 \<and> ((\<forall>k'\<in>set ?keys. ?path k' = ?path key \<longrightarrow> k' = key)
                      \<longrightarrow> result_data b = result_data a)"
      by blast
  qed
  from sec keys2 cached2 same show ?thesis by blast
qed

text \<open>
  C1. In a universe where two pairs have the same tickers (WETH-USDC on two exchanges) the
  two keys have one artifact path, \<^verbatim>\<open>/cache/u/shifted(length=2)-WETH-USDC.parquet\<close>. The
  first call on an empty store computes 3002 for the one pair and 3003 for the other and
  saves both at that path. The second call, with the same arguments on the store the first
  one left, returns both keys as cached, but with the data 3003 for both: the data of the
  first pair is not the data the first call returned.
\<close>

theorem calculate_and_load_indicators_shared_artifact:
  "calculate_and_load_indicators two_exchange_universe cache_storage create_shifted 2 []
   = Inr ([(Path True [''cache'', ''u'', ''shifted(length=2)-WETH-USDC.parquet''], Artifact 3003),
           (Path True [''cache'', ''u'', ''shifted(length=2)-WETH-USDC.parquet''], Artifact 3002)],
          [\<lparr>result_pair = weth_usdc, result_definition = shifted_definition 2,
            result_data = 3002, result_cached = False\<rparr>,
           \<lparr>result_pair = weth_usdc_other_exchange, result_definition = shifted_definition 2,
            result_data = 3003, result_cached = False\<rparr>])
   \<and> calculate_and_load_indicators two_exchange_universe cache_storage create_shifted 2
       [(Path True [''cache'', ''u'', ''shifted(length=2)-WETH-USDC.parquet''], Artifact 3003),
        (Path True [''cache'', ''u'', ''shifted(length=2)-WETH-USDC.parquet''], Artifact 3002)]
   = Inr ([(Path True [''cache'', ''u'', ''shifted(length=2)-WETH-USDC.parquet''], Artifact 3003),
           (Path True [''cache'', ''u'', ''shifted(length=2)-WETH-USDC.parquet''], Artifact 3002)],
          [\<lparr>result_pair = weth_usdc, result_definition = shifted_definition 2,
            result_data = 3003, result_cached = True\<rparr>,
           \<lparr>result_pair = weth_usdc_other_exchange, result_definition = shifted_definition 2,
            result_data = 3003, result_cached = True\<rparr>])"
  by (simp add: engine_eval fixture_eval)

text \<open>The universe of the tests (WETH-USDC and WBTC-USDC), where the two artifact paths
  differ: the first call on an empty store, and the second call on the store it left, with
  both results cached and the data of the first call.\<close>

lemma calculate_and_load_indicators_two_calls:
  "calculate_and_load_indicators strategy_universe cache_storage create_shifted 2 []
   = Inr ([(Path True [''cache'', ''u'', ''shifted(length=2)-WBTC-USDC.parquet''], Artifact 50002),
           (Path True [''cache'', ''u'', ''shifted(length=2)-WETH-USDC.parquet''], Artifact 3002)],
          [\<lparr>result_pair = weth_usdc, result_definition = shifted_definition 2,
            result_data = 3002, result_cached = False\<rparr>,
           \<lparr>result_pair = wbtc_usdc, result_definition = shifted_definition 2,
            result_data = 50002, result_cached = False\<rparr>])
   \<and> calculate_and_load_indicators strategy_universe cache_storage create_shifted 2
        [(Path True [''cache'', ''u'', ''shifted(length=2)-WBTC-USDC.parquet''], Artifact 50002),
         (Path True [''cache'', ''u'', ''shifted(length=2)-WETH-USDC.parquet''], Artifact 3002)]
   = Inr ([(Path True [''cache'', ''u'', ''shifted(length=2)-WBTC-USDC.parquet''], Artifact 50002),
           (Path True [''cache'', ''u'', ''shifted(length=2)-WETH-USDC.parquet''], Artifact 3002)],
          [\<lparr>result_pair = weth_usdc, result_definition = shifted_definition 2,
            result_data = 3002, result_cached = True\<rparr>,
           \<lparr>result_pair = wbtc_usdc, result_definition = shifted_definition 2,
            result_data = 50002, result_cached = True\<rparr>])"
  by (simp add: engine_eval fixture_eval)

end
